theory Spec2Isabelle
  imports Complex_Main "HOL-Library.Sublist"
begin

section \<open>JavaScript strings\<close>

text \<open>
  A JavaScript string is a sequence of UTF-16 code units; \<open>length\<close>, \<open>substring\<close>,
  \<open>charCodeAt\<close>, \<open>split\<close> and \<open>trim\<close> all count and inspect code units. A string is
  therefore modelled as the list of its code units, each a natural number. String literals
  of the source are written with \<open>str\<close>, which maps every (ASCII) character of an Isabelle
  string to its code.
\<close>

type_synonym jsstring = "nat list"

definition str :: "string \<Rightarrow> jsstring" where
  "str s = map of_char s"

text \<open>
  \<open>String.prototype.toLowerCase\<close> and \<open>toUpperCase\<close>, restricted to the ASCII letters. The
  source only compares the lowered or raised text with ASCII words (\<open>ja\<close>, \<open>en\<close>, \<open>es\<close>,
  \<open>abort\<close>, the importance tags), and no character outside ASCII is mapped by JavaScript
  to one of the letters of these words, so the restriction does not change any comparison.
\<close>

definition lowerUnit :: "nat \<Rightarrow> nat" where
  "lowerUnit c = (if 65 \<le> c \<and> c \<le> 90 then c + 32 else c)"

definition upperUnit :: "nat \<Rightarrow> nat" where
  "upperUnit c = (if 97 \<le> c \<and> c \<le> 122 then c - 32 else c)"

definition toLowerCase :: "jsstring \<Rightarrow> jsstring" where
  "toLowerCase s = map lowerUnit s"

definition toUpperCase :: "jsstring \<Rightarrow> jsstring" where
  "toUpperCase s = map upperUnit s"

text \<open>\<open>s.startsWith(p)\<close> and \<open>s.includes(p)\<close>.\<close>

fun startsWith :: "jsstring \<Rightarrow> jsstring \<Rightarrow> bool" where
  "startsWith s [] = True"
| "startsWith [] (p # ps) = False"
| "startsWith (c # cs) (p # ps) = (c = p \<and> startsWith cs ps)"

fun includesStr :: "jsstring \<Rightarrow> jsstring \<Rightarrow> bool" where
  "includesStr [] p = (p = [])"
| "includesStr (c # cs) p = (startsWith (c # cs) p \<or> includesStr cs p)"

text \<open>\<open>s.substring(0, n)\<close> for \<open>0 \<le> n\<close>: the first \<open>n\<close> code units, all of \<open>s\<close> when it is shorter.\<close>

definition substring0 :: "jsstring \<Rightarrow> nat \<Rightarrow> jsstring" where
  "substring0 s n = take n s"

text \<open>
  \<open>s.split(sep)\<close> for a separator of one code unit. The result is never empty:
  \<open>''.split(sep)\<close> is the one-element array holding the empty string.
\<close>

fun split :: "jsstring \<Rightarrow> nat \<Rightarrow> jsstring list" where
  "split [] sep = [[]]"
| "split (c # cs) sep =
     (if c = sep then [] # split cs sep
      else (case split cs sep of
              [] \<Rightarrow> [[c]]
            | p # ps \<Rightarrow> (c # p) # ps))"

text \<open>
  White space as \<open>trim\<close> and the regular-expression class \<open>\s\<close> see it: the ECMAScript
  WhiteSpace and LineTerminator code units.
\<close>

definition isWhiteSpace :: "nat \<Rightarrow> bool" where
  "isWhiteSpace c =
     (c = 9 \<or> c = 10 \<or> c = 11 \<or> c = 12 \<or> c = 13 \<or> c = 32 \<or> c = 160 \<or> c = 5760
      \<or> (8192 \<le> c \<and> c \<le> 8202) \<or> c = 8232 \<or> c = 8233 \<or> c = 8239 \<or> c = 8287
      \<or> c = 12288 \<or> c = 65279)"

definition trim :: "jsstring \<Rightarrow> jsstring" where
  "trim s = rev (dropWhile isWhiteSpace (rev (dropWhile isWhiteSpace s)))"

text \<open>\<open>parts.join(sep)\<close>.\<close>

fun join :: "jsstring list \<Rightarrow> jsstring \<Rightarrow> jsstring" where
  "join [] sep = []"
| "join [p] sep = p"
| "join (p # q # ps) sep = p @ sep @ join (q # ps) sep"


section \<open>Language resolution\<close>

text \<open>
  \<open>getOutputLanguage(pageLang)\<close> reads the language selector of the panel
  (\<open>el.langSelect.value\<close>), passed here as \<open>selected\<close>. The page language is \<open>null\<close>
  (\<open>None\<close>) or a string; \<open>null\<close> and the empty string are both falsy.
\<close>

definition getOutputLanguage :: "jsstring \<Rightarrow> jsstring option \<Rightarrow> jsstring" where
  "getOutputLanguage selected pageLang =
     (if selected \<noteq> str ''auto'' then selected
      else (case pageLang of
              None \<Rightarrow> str ''en''
            | Some pl \<Rightarrow>
                (if pl \<noteq> [] then
                   (let base = toLowerCase (hd (split pl 45))
                    in if base = str ''ja'' \<or> base = str ''en'' \<or> base = str ''es''
                       then base else str ''en'')
                 else str ''en'')))"

text \<open>
  The resolution as the specification words it: the base subtag is the portion of the tag
  before any region suffix, that is before the first hyphen, lowered.
\<close>

definition baseSubtag :: "jsstring \<Rightarrow> jsstring" where
  "baseSubtag pl = toLowerCase (takeWhile (\<lambda>c. c \<noteq> 45) pl)"

definition supportedLanguages :: "jsstring list" where
  "supportedLanguages = [str ''ja'', str ''en'', str ''es'']"

definition resolveOutputLanguage :: "jsstring \<Rightarrow> jsstring option \<Rightarrow> jsstring" where
  "resolveOutputLanguage userSelection pageLang =
     (if userSelection \<noteq> str ''auto'' then userSelection
      else (case pageLang of
              None \<Rightarrow> str ''en''
            | Some pl \<Rightarrow>
                if List.member supportedLanguages (baseSubtag pl) then baseSubtag pl
                else str ''en''))"

text \<open>
  \<open>looksLikeEnglish(text)\<close>. The source divides two integers below 501 in floating point
  and compares the quotient with the literal \<open>0.15\<close>. Two distinct fractions with
  denominators of at most 500 and 20 differ by at least 1/10000, far more than the
  rounding error of a double, and the quotient 3/20 rounds to the very double that the
  literal denotes; the comparison therefore decides exactly as the comparison of the
  fractions does, and is modelled over the reals.
\<close>

fun countNonAscii :: "jsstring \<Rightarrow> nat \<Rightarrow> nat" where
  "countNonAscii [] nonAscii = nonAscii"
| "countNonAscii (c # cs) nonAscii =
     countNonAscii cs (if c > 127 then nonAscii + 1 else nonAscii)"

definition looksLikeEnglish :: "jsstring \<Rightarrow> bool" where
  "looksLikeEnglish text =
     (if text = [] then True
      else (let sample = substring0 text 500;
                nonAscii = countNonAscii sample 0
            in real nonAscii / real (length sample) < 15 / 100))"


text \<open>
  The fraction the specification speaks of: among the leading 500 code units, the share
  of those above 127.
\<close>

definition nonAsciiFraction :: "jsstring \<Rightarrow> real" where
  "nonAsciiFraction text =
     real (length (filter (\<lambda>c. c > 127) (take 500 text))) / real (length (take 500 text))"


section \<open>Errors, elements of the panel, model sessions\<close>

text \<open>
  A thrown value or a rejection: the \<open>name\<close> and the \<open>message\<close> of the error object. A
  missing message is the empty string; the source tests the message for truthiness before
  it reads it, which the empty string fails as \<open>undefined\<close> does. (Where the source
  concatenates a message without such a test, a missing message would read \<open>undefined\<close>;
  the errors of the statements below all have a message.)
\<close>

record js_error =
  errName :: jsstring
  errMessage :: jsstring

text \<open>
  The test every summarization handler and \<open>runSummarizer\<close> apply to a caught error:
  \<open>err.name === 'AbortError' || err.message === 'AbortError' ||
  (err.message && err.message.toLowerCase().includes('abort'))\<close>.
\<close>

definition isAborted :: "js_error \<Rightarrow> bool" where
  "isAborted err =
     (errName err = str ''AbortError''
      \<or> errMessage err = str ''AbortError''
      \<or> (errMessage err \<noteq> [] \<and> includesStr (toLowerCase (errMessage err)) (str ''abort'')))"

text \<open>\<open>/too large/i.test(err.message || '')\<close>.\<close>

definition tooLarge :: "js_error \<Rightarrow> bool" where
  "tooLarge err = includesStr (toLowerCase (errMessage err)) (str ''too large'')"

text \<open>
  What an element of the panel holds: its child nodes and its \<open>data-raw-text\<close> attribute.
  The nodes are kept abstract, one constructor for each way the source fills an element;
  \<open>MarkdownNodes t\<close> stands for the paragraphs and lists that \<open>renderMarkdownSafe\<close> builds
  from \<open>t\<close>.
\<close>

datatype nodes =
    NoNodes
  | LoadingNodes
  | TranslatingNodes
  | TextNode jsstring
  | MarkdownNodes jsstring
  | KeyPointNodes "(jsstring option \<times> jsstring) list"
  | QuizNodes jsstring

record element =
  childNodes :: nodes
  dataRawText :: "jsstring option"

definition clearElement :: "element \<Rightarrow> element" where
  "clearElement elem = elem\<lparr>childNodes := NoNodes\<rparr>"

definition setTextContent :: "jsstring \<Rightarrow> element \<Rightarrow> element" where
  "setTextContent s elem = elem\<lparr>childNodes := (if s = [] then NoNodes else TextNode s)\<rparr>"

definition showSectionLoading :: "element \<Rightarrow> element" where
  "showSectionLoading container = (clearElement container)\<lparr>childNodes := LoadingNodes\<rparr>"

definition renderMarkdownSafe :: "jsstring \<Rightarrow> element \<Rightarrow> element" where
  "renderMarkdownSafe text container =
     (clearElement (container\<lparr>dataRawText := Some text\<rparr>))\<lparr>childNodes := MarkdownNodes text\<rparr>"

text \<open>
  Model sessions. Every call of \<open>create\<close> takes the next index, whether it resolves or
  rejects; the log records, in order, the sessions that were created and the calls of
  \<open>destroy\<close>.
\<close>

datatype event = Created nat | Destroyed nat

record sessions =
  nextId :: nat
  log :: "event list"

text \<open>
  The Summarizer capability, as the environment answers it: whether the \<open>n\<close>-th
  \<open>create\<close> rejects, and what \<open>summarize\<close> of session \<open>n\<close> does on an input: it
  rejects with an error (\<open>Inl\<close>) or resolves with a summary (\<open>Inr\<close>).
\<close>

record summarizer_api =
  sm_create :: "nat \<Rightarrow> js_error option"
  sm_summarize :: "nat \<Rightarrow> jsstring \<Rightarrow> js_error + jsstring"

definition TRUNCATION_SUFFIX :: jsstring where
  "TRUNCATION_SUFFIX = [10, 10] @ str ''[Text truncated for summarization]''"

text \<open>The attempts \<open>runSummarizer\<close> builds before its loop.\<close>

definition buildAttempts :: "jsstring \<Rightarrow> jsstring list" where
  "buildAttempts text =
     [text]
     @ (if length text > 6000
        then [substring0 text (length text div 2) @ TRUNCATION_SUFFIX] else [])
     @ (if length text > 3000
        then [substring0 text (length text div 4) @ TRUNCATION_SUFFIX] else [])"

text \<open>
  The loop of \<open>runSummarizer\<close> over the attempts that remain. \<open>Summarizer.create\<close> is
  awaited outside the \<open>try\<close>, so its rejection leaves the function at once; \<open>destroy\<close>
  stands in the \<open>finally\<close> and runs on every way out of the \<open>try\<close>, the \<open>continue\<close>
  included. The result is the rejection of the function (\<open>Inl\<close>) or its return value, a
  summary or \<open>null\<close>.
\<close>

fun summarizerLoop ::
  "summarizer_api \<Rightarrow> jsstring list \<Rightarrow> element \<Rightarrow> sessions
    \<Rightarrow> (js_error + jsstring option) \<times> element \<times> sessions" where
  "summarizerLoop api [] targetElement ss =
     (Inr None, setTextContent (str ''(No summary generated)'') targetElement, ss)"
| "summarizerLoop api (attempt # rest) targetElement ss =
     (let n = nextId ss in
      case sm_create api n of
        Some err \<Rightarrow> (Inl err, targetElement, ss\<lparr>nextId := n + 1\<rparr>)
      | None \<Rightarrow>
          (let destroyed = ss\<lparr>nextId := n + 1, log := log ss @ [Created n, Destroyed n]\<rparr>
           in case sm_summarize api n attempt of
                Inr summary \<Rightarrow>
                  if summary \<noteq> []
                  then (Inr (Some summary), renderMarkdownSafe summary targetElement, destroyed)
                  else (Inr None,
                        setTextContent (str ''(No summary generated)'') targetElement, destroyed)
              | Inl err \<Rightarrow>
                  if isAborted err then (Inl err, targetElement, destroyed)
                  else if tooLarge err \<and> rest \<noteq> []
                  then summarizerLoop api rest targetElement destroyed
                  else (Inr None,
                        setTextContent (str ''Error: '' @ errMessage err) targetElement,
                        destroyed)))"

definition runSummarizer ::
  "summarizer_api \<Rightarrow> jsstring \<Rightarrow> element \<Rightarrow> sessions
    \<Rightarrow> (js_error + jsstring option) \<times> element \<times> sessions" where
  "runSummarizer api text targetElement ss =
     summarizerLoop api (buildAttempts text) targetElement ss"

text \<open>
  The free-form generator (\<open>LanguageModel\<close>): whether the \<open>n\<close>-th \<open>create\<close> rejects; the
  chunks that the stream of session \<open>n\<close> delivers for a prompt, and the error with which
  it then fails, if it does; the answer of the one-shot \<open>prompt\<close>.
\<close>

record languageModel_api =
  lm_create :: "nat \<Rightarrow> js_error option"
  lm_promptStreaming :: "nat \<Rightarrow> jsstring \<Rightarrow> jsstring list \<times> js_error option"
  lm_prompt :: "nat \<Rightarrow> jsstring \<Rightarrow> js_error + jsstring"

text \<open>
  The body of the \<open>for await\<close> loop of \<open>runPromptApi\<close>, over the chunks still to come:
  \<open>isCumulative\<close> is \<open>null\<close> (\<open>None\<close>) until it is decided, \<open>fullText\<close> is the text
  accumulated so far, and every chunk ends with a rendering of the accumulated text.
\<close>

fun streamLoop ::
  "bool option \<Rightarrow> jsstring \<Rightarrow> element \<Rightarrow> jsstring list \<Rightarrow> bool option \<times> jsstring \<times> element"
  where
  "streamLoop isCumulative fullText targetElement [] = (isCumulative, fullText, targetElement)"
| "streamLoop isCumulative fullText targetElement (chunk # rest) =
     (let isCumulative' =
            (if isCumulative = None \<and> length fullText > 0
             then Some (startsWith chunk fullText) else isCumulative);
          fullText' = (if isCumulative' = Some True then chunk else fullText @ chunk)
      in streamLoop isCumulative' fullText' (renderMarkdownSafe fullText' targetElement) rest)"

definition runPromptApi ::
  "languageModel_api \<Rightarrow> jsstring \<Rightarrow> element \<Rightarrow> sessions
    \<Rightarrow> (js_error + jsstring) \<times> element \<times> sessions" where
  "runPromptApi api prompt targetElement ss =
     (let n = nextId ss in
      case lm_create api n of
        Some err \<Rightarrow> (Inl err, targetElement, ss\<lparr>nextId := n + 1\<rparr>)
      | None \<Rightarrow>
          (let destroyed = ss\<lparr>nextId := n + 1, log := log ss @ [Created n, Destroyed n]\<rparr>;
               (chunks, failure) = lm_promptStreaming api n prompt;
               (isCumulative, fullText, rendered) = streamLoop None [] targetElement chunks
           in case failure of
                None \<Rightarrow> (Inr fullText, rendered, destroyed)
              | Some err \<Rightarrow> (Inl err, rendered, destroyed)))"

text \<open>
  The detection as the specification words it: the first two chunks are compared; when
  the second begins with the first the stream is cumulative and the text is the last
  chunk, otherwise all chunks are appended.
\<close>

definition detectOnSecondChunk :: "jsstring list \<Rightarrow> jsstring" where
  "detectOnSecondChunk chunks =
     (case chunks of
        [] \<Rightarrow> []
      | [c] \<Rightarrow> c
      | c1 # c2 # rest \<Rightarrow>
          if startsWith c2 c1 then last (c2 # rest) else concat (c1 # c2 # rest))"


text \<open>
  The accumulation of \<open>streamLoop\<close> alone, without the rendering: a device of the proofs
  below, which show that it computes the first two components of \<open>streamLoop\<close>.
\<close>

fun streamText :: "bool option \<Rightarrow> jsstring \<Rightarrow> jsstring list \<Rightarrow> bool option \<times> jsstring" where
  "streamText isCumulative fullText [] = (isCumulative, fullText)"
| "streamText isCumulative fullText (chunk # rest) =
     (let isCumulative' =
            (if isCumulative = None \<and> length fullText > 0
             then Some (startsWith chunk fullText) else isCumulative);
          fullText' = (if isCumulative' = Some True then chunk else fullText @ chunk)
      in streamText isCumulative' fullText' rest)"


text \<open>
  Fixtures and vocabulary of the statements below: an empty element, the sessions before
  any call, and the events of sessions that are each created and then destroyed.
\<close>

definition emptyElement :: element where
  "emptyElement = \<lparr>childNodes = NoNodes, dataRawText = None\<rparr>"

definition noSessions :: sessions where
  "noSessions = \<lparr>nextId = 0, log = []\<rparr>"

definition lifecycle :: "nat list \<Rightarrow> event list" where
  "lifecycle ks = concat (map (\<lambda>k. [Created k, Destroyed k]) ks)"

definition newEvents :: "sessions \<Rightarrow> sessions \<Rightarrow> event list" where
  "newEvents before after = drop (length (log before)) (log after)"


text \<open>
  A summarizer for the examples: every \<open>create\<close> resolves, and \<open>summarize\<close> accepts an
  input of at most \<open>limit\<close> code units and rejects a longer one as too large.
\<close>

definition inputTooLarge :: js_error where
  "inputTooLarge =
     \<lparr>errName = str ''QuotaExceededError'', errMessage = str ''The input is too large.''\<rparr>"

definition lengthLimitedSummarizer :: "nat \<Rightarrow> summarizer_api" where
  "lengthLimitedSummarizer limit =
     \<lparr>sm_create = (\<lambda>n. None),
      sm_summarize = (\<lambda>n input. if length input \<le> limit then Inr (str ''ok'')
                                 else Inl inputTooLarge)\<rparr>"


section \<open>Key points: parsing, rendering, translating\<close>

text \<open>
  The regular expressions of the source are matched by hand. All of them are anchored or
  tried at one position, and in each of them a greedy run is followed by a character
  that the run cannot contain, so that the first, greedy way of matching is the only one.
  The flag \<open>i\<close> makes the ASCII letters of the tags match in either case. A dot matches
  every code unit but a line terminator.
\<close>

definition isLineTerminator :: "nat \<Rightarrow> bool" where
  "isLineTerminator c = (c = 10 \<or> c = 13 \<or> c = 8232 \<or> c = 8233)"

text \<open>
  \<open>(HIGH|MEDIUM|LOW)\<close> under the flag \<open>i\<close>, at the start of \<open>s\<close>: the matched text, as it
  stands in \<open>s\<close>, and what follows it.
\<close>

definition matchTag :: "jsstring \<Rightarrow> (jsstring \<times> jsstring) option" where
  "matchTag s =
     (if toUpperCase (take 4 s) = str ''HIGH'' then Some (take 4 s, drop 4 s)
      else if toUpperCase (take 6 s) = str ''MEDIUM'' then Some (take 6 s, drop 6 s)
      else if toUpperCase (take 3 s) = str ''LOW'' then Some (take 3 s, drop 3 s)
      else None)"

text \<open>\<open>\*{0,2}\<close> where nothing constrains what follows: up to two asterisks are taken.\<close>

definition takeStars :: "jsstring \<Rightarrow> jsstring \<times> jsstring" where
  "takeStars s =
     (let k = min 2 (length (takeWhile (\<lambda>c. c = 42) s)) in (take k s, drop k s))"

text \<open>
  \<open>\s+-\s+\*{0,2}\[(HIGH|MEDIUM|LOW)\]\*{0,2}\<close> tried at the start of \<open>s\<close>: the text of the
  tag and what follows the match.
\<close>

definition matchInlineBullet :: "jsstring \<Rightarrow> (jsstring \<times> jsstring) option" where
  "matchInlineBullet s =
     (if takeWhile isWhiteSpace s = [] then None
      else (case dropWhile isWhiteSpace s of
              [] \<Rightarrow> None
            | c # afterDash \<Rightarrow>
                if c \<noteq> 45 \<or> takeWhile isWhiteSpace afterDash = [] then None
                else (let stars = takeWhile (\<lambda>c. c = 42) (dropWhile isWhiteSpace afterDash);
                          bracket = dropWhile (\<lambda>c. c = 42) (dropWhile isWhiteSpace afterDash)
                      in if length stars > 2 then None
                         else (case bracket of
                                 [] \<Rightarrow> None
                               | b # tagged \<Rightarrow>
                                   if b \<noteq> 91 then None
                                   else (case matchTag tagged of
                                           None \<Rightarrow> None
                                         | Some (tag, closing) \<Rightarrow>
                                             (case closing of
                                                [] \<Rightarrow> None
                                              | d # rest \<Rightarrow>
                                                  if d \<noteq> 93 then None
                                                  else Some (tag, snd (takeStars rest))))))))"

text \<open>
  \<open>text.replace(/\s+-\s+\*{0,2}\[(HIGH|MEDIUM|LOW)\]\*{0,2}/gi, '\n- [$1]')\<close>: the text
  is scanned from the left; \<open>skip\<close> counts the code units of a match that the scan still
  has to pass over after it has written the replacement.
\<close>

fun normalizeBullets :: "nat \<Rightarrow> jsstring \<Rightarrow> jsstring" where
  "normalizeBullets skip [] = []"
| "normalizeBullets (Suc skip) (c # cs) = normalizeBullets skip cs"
| "normalizeBullets 0 (c # cs) =
     (case matchInlineBullet (c # cs) of
        None \<Rightarrow> c # normalizeBullets 0 cs
      | Some (tag, rest) \<Rightarrow>
          [10] @ str ''- ['' @ tag @ str '']''
          @ normalizeBullets (length cs - length rest) cs)"

text \<open>
  \<open>/^[-*]\s+(.+)/\<close> on a trimmed line: the first group. A trimmed line does not end in
  white space, so the run of white space is followed by a code unit that is not a line
  terminator and the group is not empty.
\<close>

definition listMatch :: "jsstring \<Rightarrow> jsstring option" where
  "listMatch trimmed =
     (case trimmed of
        [] \<Rightarrow> None
      | c # cs \<Rightarrow>
          if (c = 45 \<or> c = 42) \<and> takeWhile isWhiteSpace cs \<noteq> []
             \<and> takeWhile (\<lambda>c. \<not> isLineTerminator c) (dropWhile isWhiteSpace cs) \<noteq> []
          then Some (takeWhile (\<lambda>c. \<not> isLineTerminator c) (dropWhile isWhiteSpace cs))
          else None)"

text \<open>
  \<open>/^(\*{0,2})\s*\[(HIGH|MEDIUM|LOW)\]\s*(\*{0,2})\s*/i\<close>: the first group, the tag, the
  third group and what follows the whole match. The test
  \<open>/^\*{0,2}\s*\[(HIGH|MEDIUM|LOW)\]/i\<close> succeeds on the same strings.
\<close>

definition importanceMatch ::
  "jsstring \<Rightarrow> (jsstring \<times> jsstring \<times> jsstring \<times> jsstring) option" where
  "importanceMatch content =
     (let stars = takeWhile (\<lambda>c. c = 42) content;
          bracket = dropWhile isWhiteSpace (dropWhile (\<lambda>c. c = 42) content)
      in if length stars > 2 then None
         else (case bracket of
                 [] \<Rightarrow> None
               | b # tagged \<Rightarrow>
                   if b \<noteq> 91 then None
                   else (case matchTag tagged of
                           None \<Rightarrow> None
                         | Some (tag, closing) \<Rightarrow>
                             (case closing of
                                [] \<Rightarrow> None
                              | d # rest \<Rightarrow>
                                  if d \<noteq> 93 then None
                                  else (let (stars3, rest3) =
                                              takeStars (dropWhile isWhiteSpace rest)
                                        in Some (stars, tag, stars3,
                                                 dropWhile isWhiteSpace rest3))))))"

text \<open>\<open>s.indexOf('**')\<close>: the first index at which two asterisks stand, if there is one.\<close>

fun indexOfStars :: "jsstring \<Rightarrow> nat option" where
  "indexOfStars [] = None"
| "indexOfStars (c # cs) =
     (if startsWith (c # cs) [42, 42] then Some 0
      else map_option Suc (indexOfStars cs))"

text \<open>
  One line of \<open>renderKeyPointsWithImportance\<close>: \<open>None\<close> when the line adds no list item,
  otherwise the importance of the item (\<open>null\<close> when there is no tag) and the content that
  is formatted into it.
\<close>

definition keyPointOfLine :: "jsstring \<Rightarrow> (jsstring option \<times> jsstring) option" where
  "keyPointOfLine line =
     (let trimmed = trim line in
      if trimmed = [] then None
      else (case (case listMatch trimmed of
                    Some body \<Rightarrow> Some body
                  | None \<Rightarrow> if importanceMatch trimmed \<noteq> None then Some trimmed else None) of
              None \<Rightarrow> None
            | Some content \<Rightarrow>
                (case importanceMatch content of
                   None \<Rightarrow> Some (None, content)
                 | Some (stars1, tag, stars3, rest) \<Rightarrow>
                     Some (Some (toLowerCase tag),
                           if stars1 = [42, 42] \<and> stars3 = []
                           then (case indexOfStars rest of
                                   Some closeIdx \<Rightarrow>
                                     [42, 42] @ take closeIdx rest @ [42, 42]
                                     @ drop (closeIdx + 2) rest
                                 | None \<Rightarrow> rest)
                           else rest))))"

definition parseKeyPoints :: "jsstring \<Rightarrow> (jsstring option \<times> jsstring) list" where
  "parseKeyPoints text =
     List.map_filter keyPointOfLine (split (normalizeBullets 0 text) 10)"

definition renderKeyPointsWithImportance :: "jsstring \<Rightarrow> element \<Rightarrow> element" where
  "renderKeyPointsWithImportance text container =
     (if parseKeyPoints text \<noteq> []
      then (clearElement (container\<lparr>dataRawText := Some text\<rparr>))
             \<lparr>childNodes := KeyPointNodes (parseKeyPoints text)\<rparr>
      else renderMarkdownSafe text (clearElement (container\<lparr>dataRawText := Some text\<rparr>)))"

text \<open>
  The parser of \<open>translateKeyPointsPreservingFormat\<close>. One line gives an item when its
  trimmed text matches \<open>/^[-*]\s*\[?(HIGH|MEDIUM|LOW)\]?\s*(.*)/i\<close>: the tag of the item
  is the matched word in capitals between brackets, its text is the second group.
\<close>

definition itemOfLine :: "jsstring \<Rightarrow> (jsstring \<times> jsstring) option" where
  "itemOfLine rawLine =
     (let line = trim rawLine in
      case line of
        [] \<Rightarrow> None
      | c # cs \<Rightarrow>
          if c \<noteq> 45 \<and> c \<noteq> 42 then None
          else (let afterSpace = dropWhile isWhiteSpace cs;
                    tagged = (case afterSpace of
                                [] \<Rightarrow> []
                              | b # bs \<Rightarrow> if b = 91 then bs else b # bs)
                in case matchTag tagged of
                     None \<Rightarrow> None
                   | Some (tag, closing) \<Rightarrow>
                       (let body = (case closing of
                                      [] \<Rightarrow> []
                                    | d # ds \<Rightarrow> if d = 93 then ds else d # ds)
                        in Some ([91] @ toUpperCase tag @ [93],
                                 takeWhile (\<lambda>c. \<not> isLineTerminator c)
                                   (dropWhile isWhiteSpace body)))))"

definition parseItems :: "jsstring \<Rightarrow> (jsstring \<times> jsstring) list" where
  "parseItems keyPointsText = List.map_filter itemOfLine (split keyPointsText 10)"

text \<open>
  A translator: what its \<open>k\<close>-th call of \<open>translate\<close> does on an input, rejecting with an
  error or resolving with a text, and whether the object has a \<open>destroy\<close> method. The
  calls of \<open>destroy\<close> on a translator are counted.
\<close>

record translator =
  tr_translate :: "nat \<Rightarrow> jsstring \<Rightarrow> js_error + jsstring"
  tr_hasDestroy :: bool

text \<open>
  The promise chain of \<open>translateKeyPointsPreservingFormat\<close>: the items are translated one
  after the other, each result is stored at the index of its item, and a rejected
  translation rejects the chain, so that no later item is translated.
\<close>

fun translateItems ::
  "translator \<Rightarrow> nat \<Rightarrow> (jsstring \<times> jsstring) list \<Rightarrow> jsstring list
    \<Rightarrow> js_error + jsstring list" where
  "translateItems tr idx [] translatedItems = Inr translatedItems"
| "translateItems tr idx ((tag, body) # items) translatedItems =
     (case tr_translate tr idx body of
        Inl err \<Rightarrow> Inl err
      | Inr translated \<Rightarrow>
          translateItems tr (idx + 1) items
            (translatedItems
             @ [str ''- '' @ tag @ str '' ''
                @ (if trim translated \<noteq> [] then trim translated else body)]))"

definition translateKeyPointsPreservingFormat ::
  "translator \<Rightarrow> jsstring \<Rightarrow> js_error + jsstring" where
  "translateKeyPointsPreservingFormat tr keyPointsText =
     (let items = parseItems keyPointsText in
      if items = [] then tr_translate tr 0 keyPointsText
      else (case translateItems tr 0 items [] of
              Inl err \<Rightarrow> Inl err
            | Inr translatedItems \<Rightarrow> Inr (join translatedItems [10])))"


text \<open>
  \<open>translateIfNeeded\<close> and \<open>translateKeyPointsIfNeeded\<close>. The variable \<open>pendingTranslator\<close>
  is \<open>null\<close> (\<open>None\<close>) or a promise that rejects (\<open>Inl\<close>) or resolves, possibly with a falsy
  value (\<open>Inr None\<close>); \<open>created\<close> is what \<open>createTranslator(targetLang)\<close> does when it is
  called. The inner computation keeps the errors that the source throws inside its outer
  \<open>try\<close>; the outer \<open>catch\<close> turns each of them into the return of the untranslated
  text. Beside the result, the calls of \<open>destroy\<close> on the translator are counted.
\<close>

definition awaitTranslator ::
  "(js_error + translator option) option \<Rightarrow> js_error + translator option" where
  "awaitTranslator pendingTranslator =
     (case pendingTranslator of None \<Rightarrow> Inr None | Some promise \<Rightarrow> promise)"

definition destroyCalls :: "(js_error + translator option) option \<Rightarrow> translator \<Rightarrow> nat" where
  "destroyCalls pendingTranslator tr =
     (if pendingTranslator = None \<and> tr_hasDestroy tr then 1 else 0)"

definition translateIfNeeded ::
  "(js_error + translator option) option \<Rightarrow> (js_error + translator) \<Rightarrow> jsstring \<Rightarrow> jsstring
    \<Rightarrow> (js_error + jsstring) \<times> nat" where
  "translateIfNeeded pendingTranslator created text targetLang =
     (if text = [] \<or> targetLang = str ''en'' then (Inr text, 0)
      else (case awaitTranslator pendingTranslator of
              Inl err \<Rightarrow> (Inr text, 0)
            | Inr pending \<Rightarrow>
                (case (case pending of Some tr \<Rightarrow> Inr tr | None \<Rightarrow> created) of
                   Inl e \<Rightarrow> (Inr text, 0)
                 | Inr tr \<Rightarrow>
                     (case tr_translate tr 0 text of
                        Inr translated \<Rightarrow>
                          (if trim translated \<noteq> [] then Inr translated else Inr text,
                           destroyCalls pendingTranslator tr)
                      | Inl err \<Rightarrow> (Inr text, destroyCalls pendingTranslator tr)))))"

definition translateKeyPointsIfNeeded ::
  "(js_error + translator option) option \<Rightarrow> (js_error + translator) \<Rightarrow> jsstring \<Rightarrow> jsstring
    \<Rightarrow> (js_error + jsstring) \<times> nat" where
  "translateKeyPointsIfNeeded pendingTranslator created keyPointsText targetLang =
     (if keyPointsText = [] \<or> targetLang = str ''en'' then (Inr keyPointsText, 0)
      else (case awaitTranslator pendingTranslator of
              Inl err \<Rightarrow> (Inr keyPointsText, 0)
            | Inr pending \<Rightarrow>
                (case (case pending of Some tr \<Rightarrow> Inr tr | None \<Rightarrow> created) of
                   Inl e \<Rightarrow> (Inr keyPointsText, 0)
                 | Inr tr \<Rightarrow>
                     (case translateKeyPointsPreservingFormat tr keyPointsText of
                        Inr translated \<Rightarrow>
                          (if trim translated \<noteq> [] then Inr translated
                           else Inr keyPointsText,
                           destroyCalls pendingTranslator tr)
                      | Inl err \<Rightarrow> (Inr keyPointsText, destroyCalls pendingTranslator tr)))))"

text \<open>
  The line that \<open>translateKeyPointsPreservingFormat\<close> assembles for an item from the answer
  of the translator.
\<close>

definition translatedLine :: "jsstring \<times> jsstring \<Rightarrow> jsstring \<Rightarrow> jsstring" where
  "translatedLine item translated =
     str ''- '' @ fst item @ str '' ''
     @ (if trim translated \<noteq> [] then trim translated else snd item)"


text \<open>
  The translator that the two helpers come to use: the one that the pending promise
  resolves with, or else the one created on demand; \<open>Inl\<close> when the promise or the
  creation rejects.
\<close>

definition obtainTranslator ::
  "(js_error + translator option) option \<Rightarrow> (js_error + translator) \<Rightarrow> js_error + translator"
  where
  "obtainTranslator pendingTranslator created =
     (case awaitTranslator pendingTranslator of
        Inl err \<Rightarrow> Inl err
      | Inr None \<Rightarrow> created
      | Inr (Some tr) \<Rightarrow> Inr tr)"


section \<open>The state of the panel\<close>

text \<open>
  The page data that the content script extracts. Its \<open>lang\<close> is the \<open>lang\<close> attribute of
  the document, the empty string when there is none.
\<close>

record page_data =
  pd_text :: jsstring
  pd_title :: jsstring
  pd_url :: jsstring
  pd_lang :: jsstring
  pd_charCount :: nat
  pd_truncated :: bool

text \<open>
  An entry of \<open>tabCache\<close>. The three \<open>Html\<close> fields hold the \<open>innerHTML\<close> of an element; the
  serialisation is kept abstract and the nodes themselves are stored. A field that was
  never assigned (\<open>undefined\<close>) and one that is \<open>null\<close> are both \<open>None\<close>: the source only
  tests these fields for truthiness.
\<close>

record cache_entry =
  pageData :: "page_data option"
  summaryType :: jsstring
  tldr :: "jsstring option"
  keyPoints :: "jsstring option"
  quizHtml :: "nodes option"
  dialogueHtml :: "nodes option"
  chatHtml :: "nodes option"

text \<open>
  The variables of the panel script and the elements it writes. Tab identifiers are
  integers; \<open>currentTabId\<close> is \<open>null\<close> before the first tab is known. An abort controller is
  known by the number of its creation, and \<open>abortedControllers\<close> lists those whose \<open>abort\<close>
  was called. Button labels, the status banner, the page information line, zoom and
  speech are not modelled.
\<close>

record panel =
  currentTabId :: "int option"
  tabCache :: "int \<Rightarrow> cache_entry option"
  extractedPageData :: "page_data option"
  isSummarizing :: bool
  isSummarizingTldr :: bool
  tldrAbortController :: "nat option"
  isGeneratingQuiz :: bool
  quizAbortController :: "nat option"
  abortedControllers :: "nat list"
  nextController :: nat
  langSelect :: jsstring
  currentSummaryType :: jsstring
  tldrContent :: element
  keyPointsContent :: element
  quizContent :: element
  dialogueContent :: element
  chatHistory :: element
  modelSessions :: sessions

text \<open>\<open>a || b\<close> on strings.\<close>

definition orElse :: "jsstring \<Rightarrow> jsstring \<Rightarrow> jsstring" where
  "orElse a b = (if a \<noteq> [] then a else b)"

text \<open>
  The \<open>TypeError\<close> that reading a property of \<open>null\<close> throws, with the message Chrome gives
  it: \<open>Cannot read properties of null (reading 'signal')\<close>.
\<close>

definition nullPropertyError :: "string \<Rightarrow> js_error" where
  "nullPropertyError property =
     \<lparr>errName = str ''TypeError'',
      errMessage = str ''Cannot read properties of null (reading '' @ [39]
                   @ str property @ [39] @ str '')''\<rparr>"

text \<open>\<open>elem.childNodes.length > 0\<close>.\<close>

definition hasChildNodes :: "nodes \<Rightarrow> bool" where
  "hasChildNodes ns =
     (case ns of
        NoNodes \<Rightarrow> False
      | LoadingNodes \<Rightarrow> True
      | TranslatingNodes \<Rightarrow> True
      | TextNode s \<Rightarrow> s \<noteq> []
      | MarkdownNodes t \<Rightarrow> list_ex (\<lambda>line. trim line \<noteq> []) (split t 10)
      | KeyPointNodes items \<Rightarrow> items \<noteq> []
      | QuizNodes t \<Rightarrow> True)"

text \<open>\<open>elem.innerHTML = html\<close> for a cached \<open>html\<close>, with the test for truthiness before it.\<close>

definition restoreHtml :: "nodes option \<Rightarrow> element \<Rightarrow> element" where
  "restoreHtml html elem =
     (case html of
        None \<Rightarrow> clearElement elem
      | Some ns \<Rightarrow> if hasChildNodes ns then elem\<lparr>childNodes := ns\<rparr> else clearElement elem)"

definition showFreshState :: "panel \<Rightarrow> panel" where
  "showFreshState p =
     p\<lparr>extractedPageData := None,
       tldrContent := clearElement (tldrContent p),
       keyPointsContent := clearElement (keyPointsContent p),
       chatHistory := clearElement (chatHistory p),
       quizContent := clearElement (quizContent p),
       dialogueContent := clearElement (dialogueContent p)\<rparr>"

text \<open>
  \<open>saveCurrentTabQuizChat(tabId)\<close>: called with \<open>currentTabId\<close> before the panel leaves a
  tab.
\<close>

definition saveCurrentTabQuizChat :: "int option \<Rightarrow> panel \<Rightarrow> panel" where
  "saveCurrentTabQuizChat tabId p =
     (case tabId of
        None \<Rightarrow> p
      | Some t \<Rightarrow>
          if t = 0 then p
          else
            (let hasQuiz = hasChildNodes (childNodes (quizContent p));
                 hasDialogue = hasChildNodes (childNodes (dialogueContent p));
                 hasChat = hasChildNodes (childNodes (chatHistory p))
             in if \<not> hasQuiz \<and> \<not> hasDialogue \<and> \<not> hasChat then p
                else
                  (let entry =
                         (case tabCache p t of
                            Some e \<Rightarrow> e
                          | None \<Rightarrow>
                              \<lparr>pageData = extractedPageData p,
                               summaryType = currentSummaryType p,
                               tldr = (case dataRawText (tldrContent p) of
                                         Some raw \<Rightarrow> if raw \<noteq> [] then Some raw else None
                                       | None \<Rightarrow> None),
                               keyPoints = (case dataRawText (keyPointsContent p) of
                                              Some raw \<Rightarrow> if raw \<noteq> [] then Some raw else None
                                            | None \<Rightarrow> None),
                               quizHtml = None, dialogueHtml = None, chatHtml = None\<rparr>)
                   in p\<lparr>tabCache := (tabCache p)
                          (t \<mapsto> entry
                             \<lparr>quizHtml :=
                                (if hasQuiz then Some (childNodes (quizContent p)) else None),
                              dialogueHtml :=
                                (if hasDialogue then Some (childNodes (dialogueContent p))
                                 else None),
                              chatHtml :=
                                (if hasChat then Some (childNodes (chatHistory p))
                                 else None)\<rparr>)\<rparr>)))"


text \<open>
  \<open>restoreFromCache(tabId)\<close>: whether an entry was found, and the panel after it. The
  click listeners that \<open>rebindQuizCards\<close> attaches again are not part of the nodes.
\<close>

definition restoreFromCache :: "int \<Rightarrow> panel \<Rightarrow> bool \<times> panel" where
  "restoreFromCache tabId p =
     (case tabCache p tabId of
        None \<Rightarrow> (False, p)
      | Some cached \<Rightarrow>
          (True,
           p\<lparr>extractedPageData := pageData cached,
             tldrContent :=
               (case tldr cached of
                  Some t \<Rightarrow> if t \<noteq> [] then renderMarkdownSafe t (tldrContent p)
                            else clearElement (tldrContent p)
                | None \<Rightarrow> clearElement (tldrContent p)),
             keyPointsContent :=
               (case keyPoints cached of
                  Some k \<Rightarrow> if k \<noteq> [] then renderKeyPointsWithImportance k (keyPointsContent p)
                            else clearElement (keyPointsContent p)
                | None \<Rightarrow> clearElement (keyPointsContent p)),
             quizContent := restoreHtml (quizHtml cached) (quizContent p),
             dialogueContent := restoreHtml (dialogueHtml cached) (dialogueContent p),
             chatHistory := restoreHtml (chatHtml cached) (chatHistory p)\<rparr>))"

text \<open>
  The listeners of the tab events. A handler runs until it awaits something the
  environment answers; it is modelled by one function for each such stretch, the answer
  being the argument of the next function. \<open>switchToTab\<close> runs up to the await of
  \<open>updateTabAccessibility\<close> (the flag tells whether it got there),
  \<open>switchToTab_accessible\<close> goes on with the answer up to the await of \<open>extractText\<close> (the
  flag tells whether it is awaited), and \<open>switchToTab_extracted\<close> ends the handler: a
  resolved extraction is assigned to \<open>extractedPageData\<close> as it is, a rejected one is
  caught.
\<close>

definition switchToTab :: "int \<Rightarrow> panel \<Rightarrow> bool \<times> panel" where
  "switchToTab tabId p =
     (if Some tabId = currentTabId p then (False, p)
      else (let left = (saveCurrentTabQuizChat (currentTabId p) p)\<lparr>currentTabId := Some tabId\<rparr>
            in if isSummarizing left then (False, left) else (True, left)))"

definition switchToTab_accessible :: "int \<Rightarrow> bool \<Rightarrow> panel \<Rightarrow> bool \<times> panel" where
  "switchToTab_accessible tabId accessible p =
     (if \<not> accessible then (False, showFreshState p)
      else (case restoreFromCache tabId p of
              (True, restored) \<Rightarrow> (False, restored)
            | (False, unchanged) \<Rightarrow> (True, showFreshState unchanged)))"

definition switchToTab_extracted :: "js_error + page_data option \<Rightarrow> panel \<Rightarrow> panel" where
  "switchToTab_extracted extraction p =
     (case extraction of
        Inl err \<Rightarrow> p
      | Inr data \<Rightarrow> p\<lparr>extractedPageData := data\<rparr>)"

definition isAccessibleUrl :: "jsstring \<Rightarrow> bool" where
  "isAccessibleUrl url =
     (url \<noteq> [] \<and> (startsWith url (str ''http://'') \<or> startsWith url (str ''https://'')))"

text \<open>
  The listener of \<open>chrome.tabs.onUpdated\<close>, with the \<open>url\<close> of the change information
  (\<open>None\<close> when the change has none); the flag tells whether an extraction was started,
  whose answer \<open>onUpdated_extracted\<close> takes. The listener of \<open>chrome.tabs.onRemoved\<close>.
\<close>

definition onUpdated :: "int \<Rightarrow> jsstring option \<Rightarrow> panel \<Rightarrow> bool \<times> panel" where
  "onUpdated tabId url p =
     (case url of
        None \<Rightarrow> (False, p)
      | Some u \<Rightarrow>
          if u = [] then (False, p)
          else (let deleted = p\<lparr>tabCache := (tabCache p)(tabId := None)\<rparr>
                in if Some tabId = currentTabId deleted
                   then (isAccessibleUrl u, showFreshState deleted)
                   else (False, deleted)))"

definition onUpdated_extracted :: "js_error + page_data option \<Rightarrow> panel \<Rightarrow> panel" where
  "onUpdated_extracted extraction p =
     (case extraction of
        Inr (Some data) \<Rightarrow> if pd_text data \<noteq> [] then p\<lparr>extractedPageData := Some data\<rparr> else p
      | _ \<Rightarrow> p)"

definition onRemoved :: "int \<Rightarrow> panel \<Rightarrow> panel" where
  "onRemoved tabId p = p\<lparr>tabCache := (tabCache p)(tabId := None)\<rparr>"

text \<open>
  \<open>ensurePageData\<close>: its call either returns the data already extracted or awaits
  \<open>extractText\<close>; \<open>ensurePageData_extracted\<close> is the rest of the function after the
  extraction has settled.
\<close>

datatype ensured = Returned | AwaitEnsured page_data | AwaitExtraction

definition ensurePageData :: "panel \<Rightarrow> ensured" where
  "ensurePageData p =
     (case extractedPageData p of Some data \<Rightarrow> AwaitEnsured data | None \<Rightarrow> AwaitExtraction)"

definition ensurePageData_extracted ::
  "js_error + page_data option \<Rightarrow> panel \<Rightarrow> page_data option \<times> panel" where
  "ensurePageData_extracted extraction p =
     (case extraction of
        Inl err \<Rightarrow> (None, p\<lparr>extractedPageData := None\<rparr>)
      | Inr None \<Rightarrow> (None, p\<lparr>extractedPageData := None\<rparr>)
      | Inr (Some data) \<Rightarrow>
          if pd_text data \<noteq> [] then (Some data, p\<lparr>extractedPageData := Some data\<rparr>)
          else (None, p\<lparr>extractedPageData := None\<rparr>))"


text \<open>
  \<open>handleGenerateTldr\<close>, the click handler of the TL;DR button, in three stretches.
  \<open>getMessage\<close> is \<open>chrome.i18n.getMessage\<close>, which gives the empty string for a message
  that the locale lacks.

  The first stretch is the click itself: the cancel branch, or the start of a generation
  up to the await of \<open>ensurePageData()\<close>.
\<close>

definition handleGenerateTldr :: "(jsstring \<Rightarrow> jsstring) \<Rightarrow> panel \<Rightarrow> ensured \<times> panel" where
  "handleGenerateTldr getMessage p =
     (if isSummarizingTldr p then
        (let aborted =
               (case tldrAbortController p of
                  Some controller \<Rightarrow>
                    p\<lparr>abortedControllers := abortedControllers p @ [controller],
                      tldrAbortController := None\<rparr>
                | None \<Rightarrow> p)
         in (Returned,
             aborted\<lparr>tldrContent :=
                       setTextContent
                         (orElse (getMessage (str ''notEnoughText''))
                            (str ''Generation cancelled''))
                         (clearElement (tldrContent aborted)),
                     isSummarizingTldr := False\<rparr>))
      else
        (let started =
               p\<lparr>isSummarizingTldr := True,
                 tldrAbortController := Some (nextController p),
                 nextController := nextController p + 1,
                 tldrContent := showSectionLoading (clearElement (tldrContent p))\<rparr>
         in (ensurePageData started, started)))"

text \<open>The \<open>catch\<close> and the \<open>finally\<close> of the handler.\<close>

definition tldrCatch :: "js_error \<Rightarrow> panel \<Rightarrow> panel" where
  "tldrCatch err p =
     (if isAborted err
      then p\<lparr>tldrContent :=
               setTextContent (str ''Generation cancelled'') (clearElement (tldrContent p))\<rparr>
      else p\<lparr>tldrContent :=
               setTextContent
                 (str ''Error: '' @ orElse (errMessage err) (str ''Failed to generate TL;DR''))
                 (clearElement (tldrContent p))\<rparr>)"

definition tldrFinally :: "panel \<Rightarrow> panel" where
  "tldrFinally p = p\<lparr>isSummarizingTldr := False, tldrAbortController := None\<rparr>"

text \<open>
  The second stretch starts when \<open>ensurePageData()\<close> has answered \<open>pageData\<close> and ends at
  the await of \<open>runSummarizer\<close>, whose text argument is read from \<open>extractedPageData\<close> at
  the call. The two variables \<open>extractedPageData\<close> and \<open>tldrAbortController\<close> are read as
  they are when the handler resumes; reading a property of one that is \<open>null\<close> throws, the
  first outside the \<open>try\<close> of the handler, which rejects, the second inside it.
\<close>

datatype tldr_progress = TldrReturned | TldrRejected js_error | TldrAwaitSummarizer jsstring

definition handleGenerateTldr_resume ::
  "(jsstring \<Rightarrow> jsstring) \<Rightarrow> page_data option \<Rightarrow> panel \<Rightarrow> tldr_progress \<times> panel" where
  "handleGenerateTldr_resume getMessage ensuredData p =
     (case ensuredData of
        None \<Rightarrow>
          (TldrReturned,
           p\<lparr>tldrContent :=
               setTextContent
                 (orElse (getMessage (str ''notEnoughText'')) (str ''Not enough text content.''))
                 (clearElement (tldrContent p)),
             isSummarizingTldr := False,
             tldrAbortController := None\<rparr>)
      | Some data \<Rightarrow>
          (case extractedPageData p of
             None \<Rightarrow> (TldrRejected (nullPropertyError ''lang''), p)
           | Some extracted \<Rightarrow>
               (case tldrAbortController p of
                  None \<Rightarrow>
                    (TldrReturned, tldrFinally (tldrCatch (nullPropertyError ''signal'') p))
                | Some controller \<Rightarrow> (TldrAwaitSummarizer (pd_text extracted), p))))"

text \<open>
  The third stretch starts when \<open>runSummarizer\<close> settles. \<open>runSummarizer\<close> writes the target
  element only after its last await, so that all it does to the panel is done here, on
  the element as the panel then has it; the download progress listener is not modelled.
\<close>

definition cacheTldr :: "jsstring option \<Rightarrow> panel \<Rightarrow> panel" where
  "cacheTldr tldrResult p =
     (case currentTabId p of
        None \<Rightarrow> p
      | Some t \<Rightarrow>
          if t = 0 then p
          else (let entry =
                      (case tabCache p t of
                         Some e \<Rightarrow> e
                       | None \<Rightarrow>
                           \<lparr>pageData = extractedPageData p,
                            summaryType = currentSummaryType p,
                            tldr = None, keyPoints = None,
                            quizHtml = None, dialogueHtml = None, chatHtml = None\<rparr>)
                in p\<lparr>tabCache := (tabCache p)(t \<mapsto> entry\<lparr>tldr := tldrResult\<rparr>)\<rparr>))"

definition handleGenerateTldr_settle :: "summarizer_api \<Rightarrow> jsstring \<Rightarrow> panel \<Rightarrow> panel" where
  "handleGenerateTldr_settle api text p =
     (case runSummarizer api text (tldrContent p) (modelSessions p) of
        (result, target, ss) \<Rightarrow>
          (let ran = p\<lparr>tldrContent := target, modelSessions := ss\<rparr>
           in tldrFinally
                (case result of
                   Inr tldrResult \<Rightarrow> cacheTldr tldrResult ran
                 | Inl err \<Rightarrow> tldrCatch err ran)))"

text \<open>
  \<open>handleGenerateQuiz\<close>, in four stretches: the click (to nothing when the page has no
  \<open>LanguageModel\<close>); from the answer of \<open>ensurePageData()\<close> to the await of
  \<open>LanguageModel.create\<close>, with the name of the language computed for the prompts; from
  the settling of \<open>create\<close> to the await of \<open>session.prompt\<close>;
  from the settling of \<open>prompt\<close> to the end. \<open>renderQuiz\<close> is kept abstract: \<open>QuizNodes t\<close>
  stands for the cards, or for the text that the format could not be parsed.
\<close>

definition handleGenerateQuiz :: "bool \<Rightarrow> panel \<Rightarrow> ensured \<times> panel" where
  "handleGenerateQuiz hasLanguageModel p =
     (if \<not> hasLanguageModel then (Returned, p)
      else if isGeneratingQuiz p then
        (let aborted =
               (case quizAbortController p of
                  Some controller \<Rightarrow>
                    p\<lparr>abortedControllers := abortedControllers p @ [controller],
                      quizAbortController := None\<rparr>
                | None \<Rightarrow> p)
         in (Returned,
             aborted\<lparr>quizContent :=
                       setTextContent (str ''Generation cancelled'')
                         (clearElement (quizContent aborted)),
                     isGeneratingQuiz := False\<rparr>))
      else
        (let started =
               p\<lparr>isGeneratingQuiz := True,
                 quizAbortController := Some (nextController p),
                 nextController := nextController p + 1,
                 quizContent := showSectionLoading (clearElement (quizContent p))\<rparr>
         in (ensurePageData started, started)))"

definition isAbortedQuiz :: "js_error \<Rightarrow> bool" where
  "isAbortedQuiz err =
     (errName err = str ''AbortError''
      \<or> (errMessage err \<noteq> [] \<and> includesStr (toLowerCase (errMessage err)) (str ''abort'')))"

definition quizCatch :: "js_error \<Rightarrow> panel \<Rightarrow> panel" where
  "quizCatch err p =
     (if isAbortedQuiz err
      then p\<lparr>quizContent :=
               setTextContent (str ''Generation cancelled'') (clearElement (quizContent p))\<rparr>
      else p\<lparr>quizContent :=
               setTextContent (str ''Quiz generation failed: '' @ errMessage err)
                 (clearElement (quizContent p))\<rparr>)"

definition quizFinally :: "panel \<Rightarrow> panel" where
  "quizFinally p = p\<lparr>isGeneratingQuiz := False, quizAbortController := None\<rparr>"

definition languageNameForPrompt :: "jsstring \<Rightarrow> jsstring" where
  "languageNameForPrompt lang =
     (if lang = str ''ja'' then str ''Japanese''
      else if lang = str ''es'' then str ''Spanish''
      else str ''English'')"

datatype quiz_progress = QuizReturned | QuizRejected js_error | QuizAwaitCreate jsstring

definition handleGenerateQuiz_resume ::
  "(jsstring \<Rightarrow> jsstring) \<Rightarrow> page_data option \<Rightarrow> panel \<Rightarrow> quiz_progress \<times> panel" where
  "handleGenerateQuiz_resume getMessage ensuredData p =
     (case ensuredData of
        None \<Rightarrow>
          (QuizReturned,
           p\<lparr>quizContent :=
               setTextContent
                 (orElse (getMessage (str ''notEnoughText'')) (str ''Not enough text content.''))
                 (clearElement (quizContent p)),
             isGeneratingQuiz := False,
             quizAbortController := None\<rparr>)
      | Some data \<Rightarrow>
          (case extractedPageData p of
             None \<Rightarrow> (QuizRejected (nullPropertyError ''lang''), p)
           | Some extracted \<Rightarrow>
               (case quizAbortController p of
                  None \<Rightarrow>
                    (QuizReturned, quizFinally (quizCatch (nullPropertyError ''signal'') p))
                | Some controller \<Rightarrow>
                    (QuizAwaitCreate
                       (if langSelect p \<noteq> str ''auto''
                        then languageNameForPrompt
                               (getOutputLanguage (langSelect p)
                                  (if pd_lang extracted \<noteq> [] then Some (pd_lang extracted)
                                   else None))
                        else str ''the same language as the text''),
                     p))))"

definition quizPrompt :: "jsstring \<Rightarrow> jsstring \<Rightarrow> jsstring" where
  "quizPrompt quizLangEN pageText =
     str ''Generate exactly 3 comprehension questions with short answers in '' @ quizLangEN
     @ str ''.'' @ [10]
     @ str ''Format each Q&A pair on its own line like this:'' @ [10]
     @ str ''Q1: [question]'' @ [10] @ str ''A1: [answer]'' @ [10]
     @ str ''Q2: [question]'' @ [10] @ str ''A2: [answer]'' @ [10]
     @ str ''Q3: [question]'' @ [10] @ str ''A3: [answer]'' @ [10, 10]
     @ str ''Text:'' @ [10] @ substring0 pageText 5000"

text \<open>
  After \<open>create\<close> has settled. A rejection goes to the \<open>catch\<close> of the handler; a session is
  logged as created, and an error thrown while the prompt and its options are built runs
  the inner \<open>finally\<close>, which destroys the session, before that \<open>catch\<close>.
\<close>

datatype quiz_session = QuizEnded | QuizAwaitPrompt nat jsstring

definition destroySession :: "nat \<Rightarrow> panel \<Rightarrow> panel" where
  "destroySession n p =
     p\<lparr>modelSessions := (modelSessions p)\<lparr>log := log (modelSessions p) @ [Destroyed n]\<rparr>\<rparr>"

definition handleGenerateQuiz_created ::
  "languageModel_api \<Rightarrow> jsstring \<Rightarrow> panel \<Rightarrow> quiz_session \<times> panel" where
  "handleGenerateQuiz_created api quizLangEN p =
     (let n = nextId (modelSessions p) in
      case lm_create api n of
        Some err \<Rightarrow>
          (QuizEnded,
           quizFinally
             (quizCatch err (p\<lparr>modelSessions := (modelSessions p)\<lparr>nextId := n + 1\<rparr>\<rparr>)))
      | None \<Rightarrow>
          (let created =
                 p\<lparr>modelSessions :=
                     (modelSessions p)\<lparr>nextId := n + 1,
                                        log := log (modelSessions p) @ [Created n]\<rparr>\<rparr>
           in case extractedPageData created of
                None \<Rightarrow>
                  (QuizEnded,
                   quizFinally
                     (quizCatch (nullPropertyError ''text'') (destroySession n created)))
              | Some extracted \<Rightarrow>
                  (case quizAbortController created of
                     None \<Rightarrow>
                       (QuizEnded,
                        quizFinally
                          (quizCatch (nullPropertyError ''signal'')
                             (destroySession n created)))
                   | Some controller \<Rightarrow>
                       (QuizAwaitPrompt n (quizPrompt quizLangEN (pd_text extracted)),
                        created))))"

definition handleGenerateQuiz_prompted ::
  "languageModel_api \<Rightarrow> nat \<Rightarrow> jsstring \<Rightarrow> panel \<Rightarrow> panel" where
  "handleGenerateQuiz_prompted api n prompt p =
     (case lm_prompt api n prompt of
        Inr result \<Rightarrow>
          quizFinally
            (destroySession n
               (if result \<noteq> []
                then p\<lparr>quizContent := (clearElement (quizContent p))\<lparr>childNodes := QuizNodes result\<rparr>\<rparr>
                else p))
      | Inl err \<Rightarrow> quizFinally (quizCatch err (destroySession n p)))"


text \<open>
  The stretches of \<open>handleGenerateQuiz\<close> from the settling of \<open>create\<close> to the end of the
  handler, one after the other.
\<close>

definition handleGenerateQuiz_session ::
  "languageModel_api \<Rightarrow> languageModel_api \<Rightarrow> jsstring \<Rightarrow> panel \<Rightarrow> panel" where
  "handleGenerateQuiz_session api api' quizLangEN p =
     (case handleGenerateQuiz_created api quizLangEN p of
        (QuizEnded, ended) \<Rightarrow> ended
      | (QuizAwaitPrompt n prompt, created) \<Rightarrow> handleGenerateQuiz_prompted api' n prompt created)"


section \<open>Scenarios\<close>

text \<open>
  The panel as the script leaves it when it is loaded, before any tab is known; two
  pages; a locale without messages; a summarizer that answers every text with the same
  summary; the error of an aborted signal.
\<close>

definition initialPanel :: panel where
  "initialPanel =
     \<lparr>currentTabId = None, tabCache = (\<lambda>t. None), extractedPageData = None,
      isSummarizing = False, isSummarizingTldr = False, tldrAbortController = None,
      isGeneratingQuiz = False, quizAbortController = None,
      abortedControllers = [], nextController = 0,
      langSelect = str ''ja'', currentSummaryType = str ''both'',
      tldrContent = emptyElement, keyPointsContent = emptyElement,
      quizContent = emptyElement, dialogueContent = emptyElement,
      chatHistory = emptyElement, modelSessions = noSessions\<rparr>"

definition pageOne :: page_data where
  "pageOne =
     \<lparr>pd_text = replicate 60 97, pd_title = str ''One'', pd_url = str ''https://one.example/'',
      pd_lang = str ''en'', pd_charCount = 60, pd_truncated = False\<rparr>"

definition pageTwo :: page_data where
  "pageTwo =
     \<lparr>pd_text = replicate 80 98, pd_title = str ''Two'', pd_url = str ''https://two.example/'',
      pd_lang = str ''en'', pd_charCount = 80, pd_truncated = False\<rparr>"

definition noMessages :: "jsstring \<Rightarrow> jsstring" where
  "noMessages key = []"

definition answering :: "jsstring \<Rightarrow> summarizer_api" where
  "answering summary = \<lparr>sm_create = (\<lambda>n. None), sm_summarize = (\<lambda>n input. Inr summary)\<rparr>"

definition abortError :: js_error where
  "abortError =
     \<lparr>errName = str ''AbortError'', errMessage = str ''signal is aborted without reason''\<rparr>"

text \<open>
  Cancelling while the page text is still being extracted. The panel shows tab 1 and has
  no page data yet. The TL;DR button is clicked, and the handler awaits the extraction;
  the button is clicked again, which cancels; the extraction then delivers the page and
  the suspended handler resumes.
\<close>

definition cancel_clicked :: panel where
  "cancel_clicked =
     snd (handleGenerateTldr noMessages
            (snd (handleGenerateTldr noMessages (initialPanel\<lparr>currentTabId := Some 1\<rparr>))))"

definition cancel_resumed :: "tldr_progress \<times> panel" where
  "cancel_resumed =
     (case ensurePageData_extracted (Inr (Some pageOne)) cancel_clicked of
        (ensuredData, extracted) \<Rightarrow> handleGenerateTldr_resume noMessages ensuredData extracted)"

text \<open>
  Switching tabs while a TL;DR is generated. The panel shows tab 1, whose page is
  extracted. The TL;DR button is clicked and the handler gets as far as the await of
  \<open>runSummarizer\<close>. Tab 2 is activated: the panel finds it accessible, has no entry for it,
  shows the fresh state and extracts its page. Then the summarizer answers \<open>A\<close> for the
  text of tab 1.
\<close>

definition switch_started :: "tldr_progress \<times> panel" where
  "switch_started =
     (case handleGenerateTldr noMessages
             (initialPanel\<lparr>currentTabId := Some 1, extractedPageData := Some pageOne\<rparr>) of
        (AwaitEnsured data, started) \<Rightarrow> handleGenerateTldr_resume noMessages (Some data) started
      | (other, started) \<Rightarrow> (TldrReturned, started))"

definition switch_activated :: panel where
  "switch_activated =
     switchToTab_extracted (Inr (Some pageTwo))
       (snd (switchToTab_accessible 2 True (snd (switchToTab 2 (snd switch_started)))))"

definition switch_settled :: panel where
  "switch_settled =
     handleGenerateTldr_settle (answering (str ''A'')) (pd_text pageOne) switch_activated"


text \<open>A translator whose every call fails.\<close>

definition failingTranslator :: translator where
  "failingTranslator =
     \<lparr>tr_translate = (\<lambda>k s. Inl \<lparr>errName = str ''NotAllowedError'', errMessage = []\<rparr>),
      tr_hasDestroy = True\<rparr>"





text \<open>
  Two more translators: one that answers every text with the same text behind the mark
  \<open>T-\<close>, one that answers every text with a blank.
\<close>

definition markingTranslator :: translator where
  "markingTranslator = \<lparr>tr_translate = (\<lambda>k s. Inr (str ''T-'' @ s)), tr_hasDestroy = True\<rparr>"

definition blankTranslator :: translator where
  "blankTranslator = \<lparr>tr_translate = (\<lambda>k s. Inr (str '' '')), tr_hasDestroy = True\<rparr>"


section \<open>Basic facts about strings\<close>

lemma split_not_Nil: "split s sep \<noteq> []"
  by (induction s) (auto split: list.splits)

lemma hd_split: "hd (split s sep) = takeWhile (\<lambda>c. c \<noteq> sep) s"
proof (induction s)
  case Nil
  show ?case by simp
next
  case (Cons c cs)
  show ?case
  proof (cases "c = sep")
    case True
    then show ?thesis by simp
  next
    case False
    obtain p ps where sp: "split cs sep = p # ps"
      using split_not_Nil [of cs sep] by (cases "split cs sep") auto
    with Cons False show ?thesis by simp
  qed
qed

lemma startsWith_prefix: "startsWith s p = prefix p s"
  by (induction s p rule: startsWith.induct) auto

lemma countNonAscii_filter:
  "countNonAscii s n = n + length (filter (\<lambda>c. c > 127) s)"
  by (induction s arbitrary: n) auto

lemma str_simps:
  "str [] = []"
  "str (c # cs) = of_char c # str cs"
  by (simp_all add: str_def)


section \<open>Claims about language resolution\<close>

text \<open>
  C6. For every user language selection and every page language tag,
  \<open>getOutputLanguage\<close> computes what the specification calls \<open>resolveOutputLanguage\<close>: a
  selection other than \<open>auto\<close> is returned verbatim; under \<open>auto\<close> the result is the
  lowered portion of the page language before the first hyphen when that is one of
  \<open>ja\<close>, \<open>en\<close>, \<open>es\<close>, and \<open>en\<close> otherwise, also when the page language is absent.
\<close>

theorem getOutputLanguage_resolves:
  "getOutputLanguage selected pageLang = resolveOutputLanguage selected pageLang"
proof (cases "selected \<noteq> str ''auto''")
  case True
  then show ?thesis
    by (simp add: getOutputLanguage_def resolveOutputLanguage_def)
next
  case auto: False
  show ?thesis
  proof (cases pageLang)
    case None
    with auto show ?thesis
      by (simp add: getOutputLanguage_def resolveOutputLanguage_def)
  next
    case (Some pl)
    have empty: "baseSubtag [] = []"
      by (simp add: baseSubtag_def toLowerCase_def)
    have notsup: "\<not> List.member supportedLanguages []"
      by (simp add: supportedLanguages_def str_simps)
    have mem: "List.member supportedLanguages b
        = (b = str ''ja'' \<or> b = str ''en'' \<or> b = str ''es'')" for b
      by (auto simp add: supportedLanguages_def)
    show ?thesis
    proof (cases "pl = []")
      case True
      with auto Some empty notsup show ?thesis
        by (simp add: getOutputLanguage_def resolveOutputLanguage_def)
    next
      case False
      with auto Some show ?thesis
        by (auto simp add: getOutputLanguage_def resolveOutputLanguage_def hd_split
            baseSubtag_def supportedLanguages_def Let_def)
    qed
  qed
qed

theorem getOutputLanguage_resolves_witness:
  "getOutputLanguage (str ''auto'') (Some (str ''JA-jp'')) = str ''ja''
   \<and> getOutputLanguage (str ''es'') (Some (str ''JA-jp'')) = str ''es''
   \<and> getOutputLanguage (str ''auto'') (Some (str ''fr-FR'')) = str ''en''
   \<and> getOutputLanguage (str ''auto'') None = str ''en''"
  using getOutputLanguage_resolves [of "str ''auto''" "Some (str ''JA-jp'')"]
    getOutputLanguage_resolves [of "str ''es''" "Some (str ''JA-jp'')"]
    getOutputLanguage_resolves [of "str ''auto''" "Some (str ''fr-FR'')"]
    getOutputLanguage_resolves [of "str ''auto''" None]
  by (simp add: resolveOutputLanguage_def baseSubtag_def supportedLanguages_def
      toLowerCase_def lowerUnit_def str_simps)

section \<open>Claims about the sniffing of English\<close>

lemma looksLikeEnglish_fraction:
  "text \<noteq> [] \<Longrightarrow> looksLikeEnglish text = (nonAsciiFraction text < 15 / 100)"
  by (simp add: looksLikeEnglish_def nonAsciiFraction_def substring0_def
      countNonAscii_filter Let_def)

lemma nonAsciiFraction_ascii:
  assumes "\<forall>c \<in> set text. c \<le> 127"
  shows "nonAsciiFraction text = 0"
proof -
  have "\<forall>c \<in> set (take 500 text). \<not> c > 127"
    using assms by (meson in_set_takeD not_less)
  then have "filter (\<lambda>c. c > 127) (take 500 text) = []"
    by (simp add: filter_empty_conv)
  then show ?thesis by (simp add: nonAsciiFraction_def)
qed

text \<open>
  C8. \<open>looksLikeEnglish\<close> samples the leading 500 code units, takes the fraction of those
  above 127 and answers true exactly when the fraction is below 0.15 (the empty text,
  which has no fraction, is answered true). So every text of length at least 1 whose
  code units are all ASCII is answered true, and every text whose sample is more than 15
  per cent above 127 is answered false.
\<close>

theorem looksLikeEnglish_threshold:
  "looksLikeEnglish []
   \<and> (text \<noteq> [] \<longrightarrow> looksLikeEnglish text = (nonAsciiFraction text < 15 / 100))
   \<and> (text \<noteq> [] \<and> (\<forall>c \<in> set text. c \<le> 127) \<longrightarrow> looksLikeEnglish text)
   \<and> (nonAsciiFraction text > 15 / 100 \<longrightarrow> \<not> looksLikeEnglish text)"
proof (intro conjI impI)
  show "looksLikeEnglish []" by (simp add: looksLikeEnglish_def)
next
  assume "text \<noteq> []"
  then show "looksLikeEnglish text = (nonAsciiFraction text < 15 / 100)"
    by (rule looksLikeEnglish_fraction)
next
  assume "text \<noteq> [] \<and> (\<forall>c \<in> set text. c \<le> 127)"
  then show "looksLikeEnglish text"
    by (simp add: looksLikeEnglish_fraction nonAsciiFraction_ascii)
next
  assume big: "nonAsciiFraction text > 15 / 100"
  then have "text \<noteq> []" by (auto simp add: nonAsciiFraction_def)
  with big show "\<not> looksLikeEnglish text"
    by (simp add: looksLikeEnglish_fraction)
qed

theorem looksLikeEnglish_threshold_witness:
  "looksLikeEnglish (str ''Hello'')
   \<and> nonAsciiFraction [12371, 12435, 97] > 15 / 100
   \<and> \<not> looksLikeEnglish [12371, 12435, 97]"
proof -
  have ascii: "str ''Hello'' \<noteq> [] \<and> (\<forall>c \<in> set (str ''Hello''). c \<le> 127)"
    by (simp add: str_simps)
  have big: "nonAsciiFraction [12371, 12435, 97] > 15 / 100"
    by (simp add: nonAsciiFraction_def)
  from ascii big looksLikeEnglish_threshold [of "str ''Hello''"]
    looksLikeEnglish_threshold [of "[12371, 12435, 97]"]
  show ?thesis by blast
qed


section \<open>Claims about the streaming prompt\<close>

lemma renderMarkdownSafe_twice:
  "renderMarkdownSafe a (renderMarkdownSafe b target) = renderMarkdownSafe a target"
  by (simp add: renderMarkdownSafe_def clearElement_def)

lemma streamLoop_streamText:
  "streamLoop isC fullText target chunks
     = (fst (streamText isC fullText chunks), snd (streamText isC fullText chunks),
        if chunks = [] then target
        else renderMarkdownSafe (snd (streamText isC fullText chunks)) target)"
proof (induction chunks arbitrary: isC fullText target)
  case Nil
  show ?case by simp
next
  case (Cons chunk rest)
  define isC' where "isC' =
    (if isC = None \<and> length fullText > 0 then Some (startsWith chunk fullText) else isC)"
  define fullText' where "fullText' = (if isC' = Some True then chunk else fullText @ chunk)"
  have loop: "streamLoop isC fullText target (chunk # rest)
      = streamLoop isC' fullText' (renderMarkdownSafe fullText' target) rest"
    by (simp add: isC'_def fullText'_def Let_def)
  have pure: "streamText isC fullText (chunk # rest) = streamText isC' fullText' rest"
    by (simp add: isC'_def fullText'_def Let_def)
  show ?case
    unfolding loop pure by (auto simp add: Cons.IH renderMarkdownSafe_twice)
qed

lemma streamText_decided:
  "streamText (Some b) fullText chunks
     = (Some b,
        if chunks = [] then fullText
        else if b then last chunks else fullText @ concat chunks)"
proof (induction chunks arbitrary: fullText)
  case Nil
  show ?case by simp
next
  case (Cons chunk rest)
  show ?case
  proof (cases b)
    case True
    with Cons.IH [of chunk] show ?thesis by simp
  next
    case False
    with Cons.IH [of "fullText @ chunk"] show ?thesis by simp
  qed
qed

lemma streamText_dropWhile:
  "streamText None [] chunks = streamText None [] (dropWhile (\<lambda>c. c = []) chunks)"
  by (induction chunks) simp_all

lemma streamText_detect:
  "streamText None [] chunks =
     (case dropWhile (\<lambda>c. c = []) chunks of
        c1 # c2 # rest \<Rightarrow> Some (startsWith c2 c1)
      | _ \<Rightarrow> None,
      detectOnSecondChunk (dropWhile (\<lambda>c. c = []) chunks))"
proof -
  define cs where "cs = dropWhile (\<lambda>c. c = []) chunks"
  have hd_ne: "cs \<noteq> [] \<Longrightarrow> hd cs \<noteq> []"
    unfolding cs_def using hd_dropWhile [of "\<lambda>c. c = []" chunks] by simp
  have "streamText None [] cs =
     (case cs of c1 # c2 # rest \<Rightarrow> Some (startsWith c2 c1) | _ \<Rightarrow> None,
      detectOnSecondChunk cs)"
  proof (cases cs)
    case Nil
    then show ?thesis by (simp add: detectOnSecondChunk_def)
  next
    case (Cons c1 tl)
    with hd_ne have c1: "c1 \<noteq> []" by simp
    show ?thesis
    proof (cases tl)
      case Nil
      with Cons show ?thesis by (simp add: detectOnSecondChunk_def)
    next
      case inner: (Cons c2 rest)
      with Cons c1 show ?thesis
        by (simp add: detectOnSecondChunk_def streamText_decided Let_def)
    qed
  qed
  then show ?thesis
    unfolding cs_def using streamText_dropWhile [of chunks] by simp
qed

text \<open>
  C1. The decision between cumulative and delta chunks is not always made on the second
  chunk: the loop decides at the first chunk that arrives while the accumulated text is
  non-empty, so empty leading chunks are passed over. From then on the decision stands:
  a cumulative stream yields its last chunk, a delta stream the concatenation of its
  chunks. With the empty leading chunks dropped, the text \<open>runPromptApi\<close> returns is the
  one the detection on the first two chunks gives; it is \<open>Hello world\<close> both for the
  chunks \<open>Hello\<close>, \<open>Hello world\<close> and for the chunks \<open>Hello\<close>, \<open> world\<close>.
\<close>

theorem runPromptApi_detection:
  assumes "lm_create api (nextId ss) = None"
    and "lm_promptStreaming api (nextId ss) prompt = (chunks, None)"
  shows "fst (runPromptApi api prompt target ss)
           = Inr (detectOnSecondChunk (dropWhile (\<lambda>c. c = []) chunks))
       \<and> fst (streamLoop None [] target chunks)
           = (case dropWhile (\<lambda>c. c = []) chunks of
                c1 # c2 # rest \<Rightarrow> Some (startsWith c2 c1)
              | _ \<Rightarrow> None)
       \<and> fst (streamLoop (Some b) fullText target later) = Some b
       \<and> fst (snd (streamLoop (Some b) fullText target later))
           = (if later = [] then fullText
              else if b then last later else fullText @ concat later)
       \<and> detectOnSecondChunk [str ''Hello'', str ''Hello world''] = str ''Hello world''
       \<and> detectOnSecondChunk [str ''Hello'', str '' world''] = str ''Hello world''"
proof (intro conjI)
  show "fst (runPromptApi api prompt target ss)
      = Inr (detectOnSecondChunk (dropWhile (\<lambda>c. c = []) chunks))"
    using assms
    by (simp add: runPromptApi_def Let_def streamLoop_streamText streamText_detect)
next
  show "fst (streamLoop None [] target chunks)
      = (case dropWhile (\<lambda>c. c = []) chunks of
           c1 # c2 # rest \<Rightarrow> Some (startsWith c2 c1)
         | _ \<Rightarrow> None)"
    by (simp add: streamLoop_streamText streamText_detect)
next
  show "fst (streamLoop (Some b) fullText target later) = Some b"
    by (simp add: streamLoop_streamText streamText_decided)
next
  show "fst (snd (streamLoop (Some b) fullText target later))
      = (if later = [] then fullText else if b then last later else fullText @ concat later)"
    by (simp add: streamLoop_streamText streamText_decided)
next
  show "detectOnSecondChunk [str ''Hello'', str ''Hello world''] = str ''Hello world''"
    by (simp add: detectOnSecondChunk_def str_simps)
next
  show "detectOnSecondChunk [str ''Hello'', str '' world''] = str ''Hello world''"
    by (simp add: detectOnSecondChunk_def str_simps)
qed

theorem runPromptApi_detection_witness:
  "fst (runPromptApi
         \<lparr>lm_create = (\<lambda>n. None),
          lm_promptStreaming = (\<lambda>n p. ([str ''Hello'', str ''Hello world''], None)),
          lm_prompt = (\<lambda>n p. Inr [])\<rparr> [] emptyElement noSessions)
     = Inr (str ''Hello world'')
   \<and> fst (runPromptApi
         \<lparr>lm_create = (\<lambda>n. None),
          lm_promptStreaming = (\<lambda>n p. ([str ''Hello'', str '' world''], None)),
          lm_prompt = (\<lambda>n p. Inr [])\<rparr> [] emptyElement noSessions)
     = Inr (str ''Hello world'')"
  using runPromptApi_detection [of
      "\<lparr>lm_create = (\<lambda>n. None),
        lm_promptStreaming = (\<lambda>n p. ([str ''Hello'', str ''Hello world''], None)),
        lm_prompt = (\<lambda>n p. Inr [])\<rparr>" noSessions "[]"
      "[str ''Hello'', str ''Hello world'']" emptyElement True "[]" "[]"]
    runPromptApi_detection [of
      "\<lparr>lm_create = (\<lambda>n. None),
        lm_promptStreaming = (\<lambda>n p. ([str ''Hello'', str '' world''], None)),
        lm_prompt = (\<lambda>n p. Inr [])\<rparr>" noSessions "[]"
      "[str ''Hello'', str '' world'']" emptyElement True "[]" "[]"]
  by (simp add: str_simps)

text \<open>
  The claim as it is worded fails when the first chunk is empty: for the chunks \<open>''\<close>,
  \<open>ab\<close>, \<open>cd\<close> a detection on the second chunk finds a cumulative stream (every string
  begins with the empty one) and ends with \<open>cd\<close>, while \<open>runPromptApi\<close> decides on the
  third chunk, finds a delta stream and returns \<open>abcd\<close>.
\<close>

theorem runPromptApi_detection_counterexample:
  "fst (runPromptApi
         \<lparr>lm_create = (\<lambda>n. None),
          lm_promptStreaming = (\<lambda>n p. ([[], str ''ab'', str ''cd''], None)),
          lm_prompt = (\<lambda>n p. Inr [])\<rparr> [] emptyElement noSessions)
     = Inr (str ''abcd'')
   \<and> detectOnSecondChunk [[], str ''ab'', str ''cd''] = str ''cd''
   \<and> str ''abcd'' \<noteq> str ''cd''"
  by (simp add: runPromptApi_def noSessions_def detectOnSecondChunk_def Let_def str_simps)


section \<open>Facts about the summarizer loop\<close>

lemma count_lifecycle:
  "count_list (lifecycle ks) (Created n) = count_list ks n
   \<and> count_list (lifecycle ks) (Destroyed n) = count_list ks n"
  by (induction ks) (simp_all add: lifecycle_def)

lemma lifecycle_append: "lifecycle (ks @ js) = lifecycle ks @ lifecycle js"
  by (simp add: lifecycle_def)

lemma summarizerLoop_log:
  "\<exists>m. log (snd (snd (summarizerLoop api attempts target ss)))
          = log ss @ lifecycle [nextId ss ..< nextId ss + m]
      \<and> m \<le> length attempts"
proof (induction attempts arbitrary: target ss)
  case Nil
  show ?case by (intro exI [of _ 0]) (simp add: lifecycle_def)
next
  case (Cons attempt rest)
  let ?n = "nextId ss"
  let ?destroyed = "ss\<lparr>nextId := ?n + 1, log := log ss @ [Created ?n, Destroyed ?n]\<rparr>"
  have zero: "log ss = log ss @ lifecycle [?n ..< ?n + 0] \<and> 0 \<le> length (attempt # rest)"
    by (simp add: lifecycle_def)
  have one: "log ?destroyed = log ss @ lifecycle [?n ..< ?n + 1]
      \<and> 1 \<le> length (attempt # rest)"
    by (simp add: lifecycle_def)
  obtain m where m: "log (snd (snd (summarizerLoop api rest target ?destroyed)))
      = log ?destroyed @ lifecycle [?n + 1 ..< ?n + 1 + m]" "m \<le> length rest"
    using Cons.IH [of target ?destroyed] by auto
  have "[?n ..< ?n + (m + 1)] = [?n ..< ?n + 1] @ [?n + 1 ..< ?n + 1 + m]"
    by (simp add: upt_conv_Cons)
  with m have more: "log (snd (snd (summarizerLoop api rest target ?destroyed)))
      = log ss @ lifecycle [?n ..< ?n + (m + 1)] \<and> m + 1 \<le> length (attempt # rest)"
    by (simp add: lifecycle_def)
  show ?case
  proof (cases "sm_create api ?n")
    case (Some err)
    with zero show ?thesis by (intro exI [of _ 0]) (simp add: Let_def)
  next
    case None
    show ?thesis
    proof (cases "sm_summarize api ?n attempt")
      case (Inr summary)
      with None one show ?thesis
        by (intro exI [of _ 1]) (simp add: Let_def)
    next
      case (Inl err)
      show ?thesis
      proof (cases "\<not> isAborted err \<and> tooLarge err \<and> rest \<noteq> []")
        case True
        with None Inl more show ?thesis
          by (intro exI [of _ "m + 1"]) (simp add: Let_def del: upt_Suc)
      next
        case False
        with None Inl one show ?thesis
          by (intro exI [of _ 1]) (auto simp add: Let_def)
      qed
    qed
  qed
qed

lemma summarizerLoop_nextId:
  "nextId ss \<le> nextId (snd (snd (summarizerLoop api attempts target ss)))"
proof (induction attempts arbitrary: target ss)
  case Nil
  show ?case by simp
next
  case (Cons attempt rest)
  let ?destroyed =
    "ss\<lparr>nextId := nextId ss + 1, log := log ss @ [Created (nextId ss), Destroyed (nextId ss)]\<rparr>"
  have "nextId ss \<le> nextId (snd (snd (summarizerLoop api rest target ?destroyed)))"
    using Cons.IH [of ?destroyed target] by simp
  then show ?case
    by (auto simp add: Let_def split: option.splits sum.splits)
qed

lemma summarizerLoop_retry_only_tooLarge:
  "nextId ss + Suc k < nextId (snd (snd (summarizerLoop api attempts target ss)))
   \<Longrightarrow> Suc k < length attempts
       \<and> sm_create api (nextId ss + k) = None
       \<and> (\<exists>err. sm_summarize api (nextId ss + k) (attempts ! k) = Inl err
                 \<and> tooLarge err \<and> \<not> isAborted err)"
proof (induction attempts arbitrary: target ss k)
  case Nil
  then show ?case by simp
next
  case (Cons attempt rest)
  let ?n = "nextId ss"
  let ?destroyed = "ss\<lparr>nextId := ?n + 1, log := log ss @ [Created ?n, Destroyed ?n]\<rparr>"
  let ?after = "snd (snd (summarizerLoop api (attempt # rest) target ss))"
  from Cons.prems have far: "?n + 1 < nextId ?after" by simp
  have created: "sm_create api ?n = None"
  proof (cases "sm_create api ?n")
    case (Some err)
    then have "nextId ?after = ?n + 1" by (simp add: Let_def)
    with far show ?thesis by simp
  qed simp
  obtain err where err: "sm_summarize api ?n attempt = Inl err"
  proof (cases "sm_summarize api ?n attempt")
    case (Inr summary)
    with created have "nextId ?after = ?n + 1" by (simp add: Let_def)
    with far show ?thesis by simp
  qed simp
  have retry: "\<not> isAborted err \<and> tooLarge err \<and> rest \<noteq> []"
  proof (rule ccontr)
    assume "\<not> (\<not> isAborted err \<and> tooLarge err \<and> rest \<noteq> [])"
    with created err have "nextId ?after = ?n + 1" by (auto simp add: Let_def)
    with far show False by simp
  qed
  with created err have after:
    "?after = snd (snd (summarizerLoop api rest target ?destroyed))"
    by (simp add: Let_def)
  show ?case
  proof (cases k)
    case 0
    with created err retry show ?thesis by (cases rest) auto
  next
    case (Suc j)
    with Cons.prems after
    have "nextId ?destroyed + Suc j
        < nextId (snd (snd (summarizerLoop api rest target ?destroyed)))"
      by simp
    from Cons.IH [OF this] Suc show ?thesis by simp
  qed
qed

lemma buildAttempts_cases:
  "buildAttempts text =
     (if length text > 6000
      then [text, substring0 text (length text div 2) @ TRUNCATION_SUFFIX,
            substring0 text (length text div 4) @ TRUNCATION_SUFFIX]
      else if length text > 3000
      then [text, substring0 text (length text div 4) @ TRUNCATION_SUFFIX]
      else [text])"
  by (simp add: buildAttempts_def)

lemma summarizerLoop_retry_step:
  assumes "sm_create api (nextId ss) = None"
    and "sm_summarize api (nextId ss) attempt = Inl err"
    and "tooLarge err" and "\<not> isAborted err" and "rest \<noteq> []"
  shows "summarizerLoop api (attempt # rest) target ss
     = summarizerLoop api rest target
         (ss\<lparr>nextId := nextId ss + 1,
              log := log ss @ [Created (nextId ss), Destroyed (nextId ss)]\<rparr>)"
  using assms by (simp add: Let_def)

lemma summarizerLoop_last_error:
  assumes "sm_create api (nextId ss) = None"
    and "sm_summarize api (nextId ss) attempt = Inl err"
    and "\<not> isAborted err" and "\<not> tooLarge err \<or> rest = []"
  shows "summarizerLoop api (attempt # rest) target ss
     = (Inr None, setTextContent (str ''Error: '' @ errMessage err) target,
        ss\<lparr>nextId := nextId ss + 1,
            log := log ss @ [Created (nextId ss), Destroyed (nextId ss)]\<rparr>)"
  using assms by (auto simp add: Let_def)

lemma summarizerLoop_success:
  assumes "sm_create api (nextId ss) = None"
    and "sm_summarize api (nextId ss) attempt = Inr summary" and "summary \<noteq> []"
  shows "summarizerLoop api (attempt # rest) target ss
     = (Inr (Some summary), renderMarkdownSafe summary target,
        ss\<lparr>nextId := nextId ss + 1,
            log := log ss @ [Created (nextId ss), Destroyed (nextId ss)]\<rparr>)"
  using assms by (simp add: Let_def)


section \<open>Claims about the retry of the summarizer\<close>

text \<open>
  C3. \<open>runSummarizer\<close> goes on to a further attempt only after the attempt before it was
  answered with an error that reads as too large and is not an abort: whenever the call
  with index \<open>k + 1\<close> of \<open>Summarizer.create\<close> is made, attempt \<open>k\<close> was so answered. An
  error of the first attempt that is neither an abort nor too large ends the function at
  once, with one session created and destroyed and the error shown. Each attempt creates
  its own session. In the scenario of the specification, a text longer than 6000 code
  units whose full and half-length attempts are answered too large and whose
  quarter-length attempt succeeds, the quarter-length summary is returned after exactly
  three sessions, each created and then destroyed.
\<close>

theorem runSummarizer_retry:
  "(nextId ss + Suc k < nextId (snd (snd (runSummarizer api text target ss)))
      \<longrightarrow> Suc k < length (buildAttempts text)
          \<and> sm_create api (nextId ss + k) = None
          \<and> (\<exists>err. sm_summarize api (nextId ss + k) (buildAttempts text ! k) = Inl err
                    \<and> tooLarge err \<and> \<not> isAborted err))
   \<and> (sm_create api (nextId ss) = None
        \<and> sm_summarize api (nextId ss) text = Inl other
        \<and> \<not> isAborted other \<and> \<not> tooLarge other
      \<longrightarrow> runSummarizer api text target ss
            = (Inr None, setTextContent (str ''Error: '' @ errMessage other) target,
               ss\<lparr>nextId := nextId ss + 1,
                   log := log ss @ lifecycle [nextId ss]\<rparr>))
   \<and> (length text > 6000
        \<and> sm_create api (nextId ss) = None
        \<and> sm_create api (nextId ss + 1) = None
        \<and> sm_create api (nextId ss + 2) = None
        \<and> sm_summarize api (nextId ss) text = Inl e1
        \<and> tooLarge e1 \<and> \<not> isAborted e1
        \<and> sm_summarize api (nextId ss + 1)
              (substring0 text (length text div 2) @ TRUNCATION_SUFFIX) = Inl e2
        \<and> tooLarge e2 \<and> \<not> isAborted e2
        \<and> sm_summarize api (nextId ss + 2)
              (substring0 text (length text div 4) @ TRUNCATION_SUFFIX) = Inr summary
        \<and> summary \<noteq> []
      \<longrightarrow> runSummarizer api text target ss
            = (Inr (Some summary), renderMarkdownSafe summary target,
               ss\<lparr>nextId := nextId ss + 3,
                   log := log ss
                     @ lifecycle [nextId ss, nextId ss + 1, nextId ss + 2]\<rparr>))"
proof -
  have retry: "nextId ss + Suc k < nextId (snd (snd (runSummarizer api text target ss)))
      \<longrightarrow> Suc k < length (buildAttempts text)
          \<and> sm_create api (nextId ss + k) = None
          \<and> (\<exists>err. sm_summarize api (nextId ss + k) (buildAttempts text ! k) = Inl err
                    \<and> tooLarge err \<and> \<not> isAborted err)"
    unfolding runSummarizer_def using summarizerLoop_retry_only_tooLarge by blast
  have stop: "sm_create api (nextId ss) = None
        \<and> sm_summarize api (nextId ss) text = Inl other
        \<and> \<not> isAborted other \<and> \<not> tooLarge other
      \<longrightarrow> runSummarizer api text target ss
            = (Inr None, setTextContent (str ''Error: '' @ errMessage other) target,
               ss\<lparr>nextId := nextId ss + 1,
                   log := log ss @ lifecycle [nextId ss]\<rparr>)"
  proof
    assume "sm_create api (nextId ss) = None
        \<and> sm_summarize api (nextId ss) text = Inl other
        \<and> \<not> isAborted other \<and> \<not> tooLarge other"
    moreover obtain rest where "buildAttempts text = text # rest"
      by (simp add: buildAttempts_def)
    ultimately show "runSummarizer api text target ss
        = (Inr None, setTextContent (str ''Error: '' @ errMessage other) target,
           ss\<lparr>nextId := nextId ss + 1, log := log ss @ lifecycle [nextId ss]\<rparr>)"
      by (simp add: runSummarizer_def lifecycle_def Let_def)
  qed
  let ?half = "substring0 text (length text div 2) @ TRUNCATION_SUFFIX"
  let ?quarter = "substring0 text (length text div 4) @ TRUNCATION_SUFFIX"
  let ?s1 = "ss\<lparr>nextId := nextId ss + 1,
    log := log ss @ [Created (nextId ss), Destroyed (nextId ss)]\<rparr>"
  let ?s2 = "?s1\<lparr>nextId := nextId ?s1 + 1,
    log := log ?s1 @ [Created (nextId ?s1), Destroyed (nextId ?s1)]\<rparr>"
  have quarter: "length text > 6000
        \<and> sm_create api (nextId ss) = None
        \<and> sm_create api (nextId ss + 1) = None
        \<and> sm_create api (nextId ss + 2) = None
        \<and> sm_summarize api (nextId ss) text = Inl e1
        \<and> tooLarge e1 \<and> \<not> isAborted e1
        \<and> sm_summarize api (nextId ss + 1) ?half = Inl e2
        \<and> tooLarge e2 \<and> \<not> isAborted e2
        \<and> sm_summarize api (nextId ss + 2) ?quarter = Inr summary
        \<and> summary \<noteq> []
      \<longrightarrow> runSummarizer api text target ss
            = (Inr (Some summary), renderMarkdownSafe summary target,
               ss\<lparr>nextId := nextId ss + 3,
                   log := log ss
                     @ lifecycle [nextId ss, nextId ss + 1, nextId ss + 2]\<rparr>)"
  proof
    assume scenario: "length text > 6000
        \<and> sm_create api (nextId ss) = None
        \<and> sm_create api (nextId ss + 1) = None
        \<and> sm_create api (nextId ss + 2) = None
        \<and> sm_summarize api (nextId ss) text = Inl e1
        \<and> tooLarge e1 \<and> \<not> isAborted e1
        \<and> sm_summarize api (nextId ss + 1) ?half = Inl e2
        \<and> tooLarge e2 \<and> \<not> isAborted e2
        \<and> sm_summarize api (nextId ss + 2) ?quarter = Inr summary
        \<and> summary \<noteq> []"
    then have attempts: "buildAttempts text = [text, ?half, ?quarter]"
      by (simp add: buildAttempts_cases)
    from scenario have c0: "sm_create api (nextId ss) = None"
      and c1: "sm_create api (nextId ?s1) = None"
      and c2: "sm_create api (nextId ?s2) = None"
      by (simp_all add: numeral_2_eq_2)
    from scenario have a0: "sm_summarize api (nextId ss) text = Inl e1"
      and a1: "sm_summarize api (nextId ?s1) ?half = Inl e2"
      and a2: "sm_summarize api (nextId ?s2) ?quarter = Inr summary"
      by (simp_all add: numeral_2_eq_2)
    from scenario have e1: "tooLarge e1" "\<not> isAborted e1"
      and e2: "tooLarge e2" "\<not> isAborted e2" and ok: "summary \<noteq> []"
      by blast+
    have first: "summarizerLoop api [text, ?half, ?quarter] target ss
        = summarizerLoop api [?half, ?quarter] target ?s1"
      by (rule summarizerLoop_retry_step [OF c0 a0 e1]) simp
    have second: "summarizerLoop api [?half, ?quarter] target ?s1
        = summarizerLoop api [?quarter] target ?s2"
      by (rule summarizerLoop_retry_step [OF c1 a1 e2]) simp
    have third: "summarizerLoop api [?quarter] target ?s2
        = (Inr (Some summary), renderMarkdownSafe summary target,
           ?s2\<lparr>nextId := nextId ?s2 + 1,
               log := log ?s2 @ [Created (nextId ?s2), Destroyed (nextId ?s2)]\<rparr>)"
      by (rule summarizerLoop_success [OF c2 a2 ok])
    show "runSummarizer api text target ss
        = (Inr (Some summary), renderMarkdownSafe summary target,
           ss\<lparr>nextId := nextId ss + 3,
               log := log ss @ lifecycle [nextId ss, nextId ss + 1, nextId ss + 2]\<rparr>)"
      unfolding runSummarizer_def attempts first second third
      by (simp add: lifecycle_def numeral_3_eq_3)
  qed
  from retry stop quarter show ?thesis by (intro conjI)
qed

lemma inputTooLarge_is_tooLarge: "tooLarge inputTooLarge \<and> \<not> isAborted inputTooLarge"
  by (simp add: tooLarge_def isAborted_def inputTooLarge_def toLowerCase_def lowerUnit_def
      str_simps)

lemma length_TRUNCATION_SUFFIX: "length TRUNCATION_SUFFIX = 36"
  by (simp add: TRUNCATION_SUFFIX_def str_simps)

theorem runSummarizer_retry_witness:
  "runSummarizer (lengthLimitedSummarizer 1600) (replicate 6004 97) emptyElement noSessions
     = (Inr (Some (str ''ok'')), renderMarkdownSafe (str ''ok'') emptyElement,
        \<lparr>nextId = 3,
         log = [Created 0, Destroyed 0, Created 1, Destroyed 1, Created 2, Destroyed 2]\<rparr>)"
  using runSummarizer_retry [of noSessions 0 "lengthLimitedSummarizer 1600"
      "replicate 6004 97" emptyElement inputTooLarge inputTooLarge inputTooLarge
      "str ''ok''"]
    inputTooLarge_is_tooLarge
  by (simp add: lengthLimitedSummarizer_def noSessions_def substring0_def
      length_TRUNCATION_SUFFIX lifecycle_def str_simps)

text \<open>
  C10. The ladder of retries is gated by the length of the text: the half-length attempt
  is built only for a text longer than 6000 code units and the quarter-length attempt
  only for one longer than 3000. For a text of at most 3000 code units a too-large error
  of the only attempt is shown at once, after one session; for a text longer than 3000
  and at most 6000 a too-large error of the full text leaves exactly the quarter-length
  attempt to be made.
\<close>

theorem runSummarizer_length_gated:
  "buildAttempts text =
     (if length text > 6000
      then [text, substring0 text (length text div 2) @ TRUNCATION_SUFFIX,
            substring0 text (length text div 4) @ TRUNCATION_SUFFIX]
      else if length text > 3000
      then [text, substring0 text (length text div 4) @ TRUNCATION_SUFFIX]
      else [text])
   \<and> (length text \<le> 3000
        \<and> sm_create api (nextId ss) = None
        \<and> sm_summarize api (nextId ss) text = Inl err
        \<and> tooLarge err \<and> \<not> isAborted err
      \<longrightarrow> runSummarizer api text target ss
            = (Inr None, setTextContent (str ''Error: '' @ errMessage err) target,
               ss\<lparr>nextId := nextId ss + 1, log := log ss @ lifecycle [nextId ss]\<rparr>))
   \<and> (3000 < length text \<and> length text \<le> 6000
        \<and> sm_create api (nextId ss) = None
        \<and> sm_summarize api (nextId ss) text = Inl err
        \<and> tooLarge err \<and> \<not> isAborted err
      \<longrightarrow> runSummarizer api text target ss
            = summarizerLoop api [substring0 text (length text div 4) @ TRUNCATION_SUFFIX]
                target
                (ss\<lparr>nextId := nextId ss + 1, log := log ss @ lifecycle [nextId ss]\<rparr>))"
proof -
  have short: "length text \<le> 3000
        \<and> sm_create api (nextId ss) = None
        \<and> sm_summarize api (nextId ss) text = Inl err
        \<and> tooLarge err \<and> \<not> isAborted err
      \<longrightarrow> runSummarizer api text target ss
            = (Inr None, setTextContent (str ''Error: '' @ errMessage err) target,
               ss\<lparr>nextId := nextId ss + 1, log := log ss @ lifecycle [nextId ss]\<rparr>)"
    by (simp add: runSummarizer_def buildAttempts_cases lifecycle_def Let_def)
  have middle: "3000 < length text \<and> length text \<le> 6000
        \<and> sm_create api (nextId ss) = None
        \<and> sm_summarize api (nextId ss) text = Inl err
        \<and> tooLarge err \<and> \<not> isAborted err
      \<longrightarrow> runSummarizer api text target ss
            = summarizerLoop api [substring0 text (length text div 4) @ TRUNCATION_SUFFIX]
                target
                (ss\<lparr>nextId := nextId ss + 1, log := log ss @ lifecycle [nextId ss]\<rparr>)"
  proof
    assume gate: "3000 < length text \<and> length text \<le> 6000
        \<and> sm_create api (nextId ss) = None
        \<and> sm_summarize api (nextId ss) text = Inl err
        \<and> tooLarge err \<and> \<not> isAborted err"
    then have attempts: "buildAttempts text
        = [text, substring0 text (length text div 4) @ TRUNCATION_SUFFIX]"
      by (simp add: buildAttempts_cases)
    from gate have "summarizerLoop api
          [text, substring0 text (length text div 4) @ TRUNCATION_SUFFIX] target ss
        = summarizerLoop api [substring0 text (length text div 4) @ TRUNCATION_SUFFIX]
            target
            (ss\<lparr>nextId := nextId ss + 1,
                log := log ss @ [Created (nextId ss), Destroyed (nextId ss)]\<rparr>)"
      by (intro summarizerLoop_retry_step [where err = err]) blast+
    then show "runSummarizer api text target ss
        = summarizerLoop api [substring0 text (length text div 4) @ TRUNCATION_SUFFIX]
            target
            (ss\<lparr>nextId := nextId ss + 1, log := log ss @ lifecycle [nextId ss]\<rparr>)"
      by (simp add: runSummarizer_def attempts lifecycle_def)
  qed
  from buildAttempts_cases short middle show ?thesis by (intro conjI)
qed

theorem runSummarizer_length_gated_witness:
  "runSummarizer (lengthLimitedSummarizer 0) (replicate 3000 97) emptyElement noSessions
     = (Inr None, setTextContent (str ''Error: The input is too large.'') emptyElement,
        \<lparr>nextId = 1, log = [Created 0, Destroyed 0]\<rparr>)
   \<and> runSummarizer (lengthLimitedSummarizer 1600) (replicate 3001 97) emptyElement noSessions
     = (Inr (Some (str ''ok'')), renderMarkdownSafe (str ''ok'') emptyElement,
        \<lparr>nextId = 2, log = [Created 0, Destroyed 0, Created 1, Destroyed 1]\<rparr>)"
  using runSummarizer_length_gated [of "replicate 3000 97" "lengthLimitedSummarizer 0"
      noSessions inputTooLarge emptyElement]
    runSummarizer_length_gated [of "replicate 3001 97" "lengthLimitedSummarizer 1600"
      noSessions inputTooLarge emptyElement]
    inputTooLarge_is_tooLarge
  by (simp add: lengthLimitedSummarizer_def noSessions_def substring0_def
      length_TRUNCATION_SUFFIX lifecycle_def inputTooLarge_def Let_def str_simps)

section \<open>Claims about the release of sessions\<close>

lemma count_list_distinct: "distinct ks \<Longrightarrow> count_list ks n \<le> 1"
  by (induction ks) auto

lemma count_lifecycle_distinct:
  assumes "distinct ks"
  shows "count_list (lifecycle ks) (Destroyed n) = count_list (lifecycle ks) (Created n)
       \<and> count_list (lifecycle ks) (Created n) \<le> 1"
  using assms count_list_distinct [of ks n] by (simp add: count_lifecycle)

lemma runSummarizer_newEvents:
  "\<exists>m. newEvents ss (snd (snd (runSummarizer api text target ss)))
         = lifecycle [nextId ss ..< nextId ss + m]"
  using summarizerLoop_log [of api "buildAttempts text" target ss]
  by (auto simp add: runSummarizer_def newEvents_def)

lemma runPromptApi_newEvents:
  "newEvents ss (snd (snd (runPromptApi api prompt target ss)))
     = (if lm_create api (nextId ss) = None then lifecycle [nextId ss] else lifecycle [])"
  by (simp add: runPromptApi_def newEvents_def lifecycle_def Let_def
      split: option.splits prod.splits)

lemma quizCatch_sessions: "modelSessions (quizCatch err p) = modelSessions p"
  by (simp add: quizCatch_def)

lemma quizFinally_sessions: "modelSessions (quizFinally p) = modelSessions p"
  by (simp add: quizFinally_def)

lemma handleGenerateQuiz_prompted_log:
  "log (modelSessions (handleGenerateQuiz_prompted api n prompt p))
     = log (modelSessions p) @ [Destroyed n]"
  by (simp add: handleGenerateQuiz_prompted_def quizCatch_sessions quizFinally_sessions
      destroySession_def split: sum.splits)

lemma handleGenerateQuiz_created_log:
  "(case handleGenerateQuiz_created api quizLang p of
      (QuizEnded, ended) \<Rightarrow>
        log (modelSessions ended)
          = log (modelSessions p)
            @ (if lm_create api (nextId (modelSessions p)) = None
               then lifecycle [nextId (modelSessions p)] else lifecycle [])
    | (QuizAwaitPrompt n prompt, created) \<Rightarrow>
        n = nextId (modelSessions p)
        \<and> log (modelSessions created) = log (modelSessions p) @ [Created n])"
  by (simp add: handleGenerateQuiz_created_def quizCatch_sessions quizFinally_sessions
      destroySession_def lifecycle_def Let_def split: option.splits)

lemma handleGenerateQuiz_session_newEvents:
  "newEvents (modelSessions p)
     (modelSessions (handleGenerateQuiz_session api api' quizLang p))
     = (if lm_create api (nextId (modelSessions p)) = None
        then lifecycle [nextId (modelSessions p)] else lifecycle [])"
proof (cases "handleGenerateQuiz_created api quizLang p")
  case (Pair progress q)
  show ?thesis
  proof (cases progress)
    case QuizEnded
    with Pair handleGenerateQuiz_created_log [of p api quizLang] show ?thesis
      by (simp add: handleGenerateQuiz_session_def newEvents_def)
  next
    case (QuizAwaitPrompt n prompt)
    with Pair handleGenerateQuiz_created_log [of p api quizLang]
    have "log (modelSessions q) = log (modelSessions p) @ [Created n]"
      and "n = nextId (modelSessions p)"
      by simp_all
    moreover from Pair QuizAwaitPrompt have "lm_create api (nextId (modelSessions p)) = None"
      by (auto simp add: handleGenerateQuiz_created_def Let_def split: option.splits)
    ultimately show ?thesis
      using Pair QuizAwaitPrompt
      by (simp add: handleGenerateQuiz_session_def newEvents_def
          handleGenerateQuiz_prompted_log lifecycle_def)
  qed
qed

text \<open>
  C7. Whatever the provider answers, the events that a generation adds to the log hold,
  for every session, as many calls of \<open>destroy\<close> as creations, and at most one creation:
  each session that \<open>runSummarizer\<close>, \<open>runPromptApi\<close> or the quiz handler creates is
  destroyed exactly once, on the success, the error and the cancellation paths alike, and
  nothing is destroyed that was not created.
\<close>

theorem sessions_destroyed_exactly_once:
  "(\<forall>n. count_list (newEvents ss (snd (snd (runSummarizer sm text target ss)))) (Destroyed n)
          = count_list (newEvents ss (snd (snd (runSummarizer sm text target ss)))) (Created n)
        \<and> count_list (newEvents ss (snd (snd (runSummarizer sm text target ss)))) (Created n)
          \<le> 1)
   \<and> (\<forall>n. count_list (newEvents ss (snd (snd (runPromptApi lm prompt target ss))))
            (Destroyed n)
          = count_list (newEvents ss (snd (snd (runPromptApi lm prompt target ss))))
              (Created n)
        \<and> count_list (newEvents ss (snd (snd (runPromptApi lm prompt target ss))))
            (Created n) \<le> 1)
   \<and> (\<forall>n. count_list (newEvents (modelSessions p)
                        (modelSessions (handleGenerateQuiz_session lm lm' quizLang p))) (Destroyed n)
          = count_list (newEvents (modelSessions p)
                          (modelSessions (handleGenerateQuiz_session lm lm' quizLang p))) (Created n)
        \<and> count_list (newEvents (modelSessions p)
                        (modelSessions (handleGenerateQuiz_session lm lm' quizLang p))) (Created n)
          \<le> 1)"
proof (intro conjI allI)
  fix n
  obtain m where "newEvents ss (snd (snd (runSummarizer sm text target ss)))
      = lifecycle [nextId ss ..< nextId ss + m]"
    using runSummarizer_newEvents by blast
  then show "count_list (newEvents ss (snd (snd (runSummarizer sm text target ss))))
        (Destroyed n)
      = count_list (newEvents ss (snd (snd (runSummarizer sm text target ss)))) (Created n)"
    and "count_list (newEvents ss (snd (snd (runSummarizer sm text target ss)))) (Created n)
      \<le> 1"
    using count_lifecycle_distinct [of "[nextId ss ..< nextId ss + m]" n] by simp_all
next
  fix n
  show "count_list (newEvents ss (snd (snd (runPromptApi lm prompt target ss)))) (Destroyed n)
      = count_list (newEvents ss (snd (snd (runPromptApi lm prompt target ss)))) (Created n)"
    and "count_list (newEvents ss (snd (snd (runPromptApi lm prompt target ss)))) (Created n)
      \<le> 1"
    using count_lifecycle_distinct [of "[nextId ss]" n] count_lifecycle_distinct [of "[]" n]
    by (simp_all add: runPromptApi_newEvents)
next
  fix n
  show "count_list (newEvents (modelSessions p)
          (modelSessions (handleGenerateQuiz_session lm lm' quizLang p))) (Destroyed n)
      = count_list (newEvents (modelSessions p)
          (modelSessions (handleGenerateQuiz_session lm lm' quizLang p))) (Created n)"
    and "count_list (newEvents (modelSessions p)
          (modelSessions (handleGenerateQuiz_session lm lm' quizLang p))) (Created n) \<le> 1"
    using count_lifecycle_distinct [of "[nextId (modelSessions p)]" n]
      count_lifecycle_distinct [of "[]" n]
    by (simp_all add: handleGenerateQuiz_session_newEvents)
qed

lemma ladder_example_log:
  "log (snd (snd (runSummarizer (lengthLimitedSummarizer 1600) (replicate 6004 97)
                    emptyElement noSessions)))
     = [Created 0, Destroyed 0, Created 1, Destroyed 1, Created 2, Destroyed 2]"
  using inputTooLarge_is_tooLarge
  by (simp add: runSummarizer_def buildAttempts_def lengthLimitedSummarizer_def
      noSessions_def substring0_def length_TRUNCATION_SUFFIX Let_def)

theorem sessions_destroyed_exactly_once_witness:
  "newEvents noSessions
     (snd (snd (runSummarizer (lengthLimitedSummarizer 1600) (replicate 6004 97)
                  emptyElement noSessions)))
     = [Created 0, Destroyed 0, Created 1, Destroyed 1, Created 2, Destroyed 2]
   \<and> count_list
        (newEvents noSessions
           (snd (snd (runSummarizer (lengthLimitedSummarizer 1600) (replicate 6004 97)
                        emptyElement noSessions))))
        (Destroyed 1) = 1
   \<and> newEvents noSessions
        (snd (snd (runPromptApi
                     \<lparr>lm_create = (\<lambda>n. None),
                      lm_promptStreaming = (\<lambda>n p. ([str ''Hel''], Some abortError)),
                      lm_prompt = (\<lambda>n p. Inl abortError)\<rparr> [] emptyElement noSessions)))
     = [Created 0, Destroyed 0]
   \<and> newEvents noSessions
        (modelSessions
           (handleGenerateQuiz_session
              \<lparr>lm_create = (\<lambda>n. None),
               lm_promptStreaming = (\<lambda>n p. ([str ''Hel''], Some abortError)),
               lm_prompt = (\<lambda>n p. Inl abortError)\<rparr>
              \<lparr>lm_create = (\<lambda>n. None),
               lm_promptStreaming = (\<lambda>n p. ([str ''Hel''], Some abortError)),
               lm_prompt = (\<lambda>n p. Inl abortError)\<rparr>
              (str ''English'')
              (initialPanel\<lparr>extractedPageData := Some pageOne,
                             quizAbortController := Some 0\<rparr>)))
     = [Created 0, Destroyed 0]"
proof -
  let ?lm = "\<lparr>lm_create = (\<lambda>n. None),
    lm_promptStreaming = (\<lambda>n p. ([str ''Hel''], Some abortError)),
    lm_prompt = (\<lambda>n p. Inl abortError)\<rparr>"
  let ?p = "initialPanel\<lparr>extractedPageData := Some pageOne, quizAbortController := Some 0\<rparr>"
  have summarizer: "newEvents noSessions
      (snd (snd (runSummarizer (lengthLimitedSummarizer 1600) (replicate 6004 97)
                   emptyElement noSessions)))
      = [Created 0, Destroyed 0, Created 1, Destroyed 1, Created 2, Destroyed 2]"
    using ladder_example_log by (simp add: newEvents_def noSessions_def)
  have prompt: "newEvents noSessions (snd (snd (runPromptApi ?lm [] emptyElement noSessions)))
      = [Created 0, Destroyed 0]"
    by (simp add: runPromptApi_newEvents noSessions_def lifecycle_def)
  have quiz: "newEvents noSessions
      (modelSessions (handleGenerateQuiz_session ?lm ?lm (str ''English'') ?p))
      = [Created 0, Destroyed 0]"
    using handleGenerateQuiz_session_newEvents [of ?p ?lm ?lm "str ''English''"]
    by (simp add: initialPanel_def noSessions_def lifecycle_def)
  from sessions_destroyed_exactly_once
    [of noSessions "lengthLimitedSummarizer 1600" "replicate 6004 97" emptyElement ?lm "[]"
      ?p ?lm "str ''English''"]
  have "count_list
      (newEvents noSessions
         (snd (snd (runSummarizer (lengthLimitedSummarizer 1600) (replicate 6004 97)
                      emptyElement noSessions))))
      (Destroyed 1)
    = count_list
      (newEvents noSessions
         (snd (snd (runSummarizer (lengthLimitedSummarizer 1600) (replicate 6004 97)
                      emptyElement noSessions))))
      (Created 1)"
    by blast
  with summarizer prompt quiz show ?thesis by simp
qed


section \<open>Claims about cancellation\<close>

lemma nullPropertyError_not_aborted: "\<not> isAborted (nullPropertyError ''signal'')"
  by (simp add: isAborted_def nullPropertyError_def toLowerCase_def lowerUnit_def str_simps)

lemma abortError_isAborted: "isAborted abortError"
  by (simp add: isAborted_def abortError_def str_simps)

text \<open>
  What holds of the claim: when \<open>runSummarizer\<close> rejects with an error that \<open>isAborted\<close>
  accepts, by its name or by its message, the handler shows the text
  \<open>Generation cancelled\<close>, leaves the cache as it was and returns the slot to idle.
\<close>

lemma handleGenerateTldr_settle_aborted:
  assumes "fst (runSummarizer api text (tldrContent p) (modelSessions p)) = Inl err"
    and "isAborted err"
  shows "childNodes (tldrContent (handleGenerateTldr_settle api text p))
           = TextNode (str ''Generation cancelled'')
       \<and> tabCache (handleGenerateTldr_settle api text p) = tabCache p
       \<and> \<not> isSummarizingTldr (handleGenerateTldr_settle api text p)
       \<and> tldrAbortController (handleGenerateTldr_settle api text p) = None"
  using assms
  by (cases "runSummarizer api text (tldrContent p) (modelSessions p)")
     (simp add: handleGenerateTldr_settle_def tldrCatch_def tldrFinally_def
        setTextContent_def clearElement_def str_simps)

text \<open>
  The cancel branch of the TL;DR slot asks the locale for the message \<open>notEnoughText\<close>
  and falls back to \<open>Generation cancelled\<close> only when the locale lacks it: with such a
  message the click on cancel shows the text of a page without enough text, until the
  \<open>catch\<close> of the suspended handler overwrites it.
\<close>

lemma cancel_click_shows_notEnoughText:
  assumes "isSummarizingTldr p" and "getMessage (str ''notEnoughText'') \<noteq> []"
  shows "childNodes (tldrContent (snd (handleGenerateTldr getMessage p)))
           = TextNode (getMessage (str ''notEnoughText''))"
  using assms
  by (simp add: handleGenerateTldr_def orElse_def setTextContent_def clearElement_def Let_def
      split: option.splits)

text \<open>
  C2, at an input where the code departs from it. The TL;DR button is clicked while the
  panel has no page data, and clicked again before the extraction has answered. The cancel
  branch sets \<open>tldrAbortController\<close> to \<open>null\<close>; when the page data arrive, the suspended
  handler reads \<open>tldrAbortController.signal\<close>, the \<open>TypeError\<close> is caught by the handler,
  is not recognised as an abort, and the slot shows
  \<open>Error: Cannot read properties of null (reading 'signal')\<close>: the cancelled generation is
  rendered as an error. The slot is idle and nothing was written to the cache.
\<close>

theorem cancel_before_page_data_shows_error:
  "fst (handleGenerateTldr noMessages (initialPanel\<lparr>currentTabId := Some 1\<rparr>))
     = AwaitExtraction
   \<and> isSummarizingTldr
       (snd (handleGenerateTldr noMessages (initialPanel\<lparr>currentTabId := Some 1\<rparr>)))
   \<and> childNodes (tldrContent cancel_clicked) = TextNode (str ''Generation cancelled'')
   \<and> tldrAbortController cancel_clicked = None
   \<and> fst cancel_resumed = TldrReturned
   \<and> childNodes (tldrContent (snd cancel_resumed))
       = TextNode (str ''Error: Cannot read properties of null (reading ''
                   @ [39] @ str ''signal'' @ [39] @ str '')'')
   \<and> \<not> isSummarizingTldr (snd cancel_resumed)
   \<and> tabCache (snd cancel_resumed) 1 = None"
  by code_simp


section \<open>Claims about the tab cache\<close>

text \<open>
  What holds of the claim. Leaving a tab writes at most the entry of that tab and keeps
  its TL;DR and key points; no listener of a tab event touches the entry of a tab other
  than the one it leaves or the one the event names.
\<close>

lemma saveCurrentTabQuizChat_other:
  "tabId \<noteq> Some t \<Longrightarrow> tabCache (saveCurrentTabQuizChat tabId p) t = tabCache p t"
  by (cases tabId) (auto simp add: saveCurrentTabQuizChat_def Let_def split: option.splits)

lemma saveCurrentTabQuizChat_same:
  assumes "tabCache p t = Some e"
  shows "\<exists>e'. tabCache (saveCurrentTabQuizChat (Some t) p) t = Some e'
           \<and> tldr e' = tldr e \<and> keyPoints e' = keyPoints e \<and> pageData e' = pageData e"
  using assms by (auto simp add: saveCurrentTabQuizChat_def Let_def)

lemma saveCurrentTabQuizChat_frame:
  "currentTabId (saveCurrentTabQuizChat tabId p) = currentTabId p
   \<and> isSummarizing (saveCurrentTabQuizChat tabId p) = isSummarizing p
   \<and> modelSessions (saveCurrentTabQuizChat tabId p) = modelSessions p
   \<and> tldrContent (saveCurrentTabQuizChat tabId p) = tldrContent p"
  by (cases tabId) (simp_all add: saveCurrentTabQuizChat_def Let_def)

lemma showFreshState_frame:
  "tabCache (showFreshState p) = tabCache p
   \<and> currentTabId (showFreshState p) = currentTabId p
   \<and> isSummarizing (showFreshState p) = isSummarizing p
   \<and> modelSessions (showFreshState p) = modelSessions p
   \<and> childNodes (tldrContent (showFreshState p)) = NoNodes
   \<and> childNodes (keyPointsContent (showFreshState p)) = NoNodes
   \<and> childNodes (quizContent (showFreshState p)) = NoNodes
   \<and> extractedPageData (showFreshState p) = None"
  by (simp add: showFreshState_def clearElement_def)

lemma restoreFromCache_frame:
  "tabCache (snd (restoreFromCache t p)) = tabCache p
   \<and> currentTabId (snd (restoreFromCache t p)) = currentTabId p
   \<and> isSummarizing (snd (restoreFromCache t p)) = isSummarizing p
   \<and> modelSessions (snd (restoreFromCache t p)) = modelSessions p"
  by (simp add: restoreFromCache_def split: option.splits)

lemma switchToTab_accessible_frame:
  "tabCache (snd (switchToTab_accessible t accessible p)) = tabCache p
   \<and> currentTabId (snd (switchToTab_accessible t accessible p)) = currentTabId p
   \<and> isSummarizing (snd (switchToTab_accessible t accessible p)) = isSummarizing p
   \<and> modelSessions (snd (switchToTab_accessible t accessible p)) = modelSessions p"
proof (cases "restoreFromCache t p")
  case (Pair found q)
  with restoreFromCache_frame [of t p] show ?thesis
    by (cases found) (simp_all add: switchToTab_accessible_def showFreshState_frame)
qed

lemma switchToTab_extracted_frame:
  "tabCache (switchToTab_extracted extraction p) = tabCache p
   \<and> currentTabId (switchToTab_extracted extraction p) = currentTabId p
   \<and> isSummarizing (switchToTab_extracted extraction p) = isSummarizing p
   \<and> modelSessions (switchToTab_extracted extraction p) = modelSessions p"
  by (simp add: switchToTab_extracted_def split: sum.splits)

lemma switchToTab_leaves:
  assumes "currentTabId p = Some t1" and "t2 \<noteq> t1" and "\<not> isSummarizing p"
    and "tabCache p t = Some e" and "t \<noteq> t1 \<or> tldr e = Some a"
  shows "fst (switchToTab t2 p)
       \<and> currentTabId (snd (switchToTab t2 p)) = Some t2
       \<and> \<not> isSummarizing (snd (switchToTab t2 p))
       \<and> modelSessions (snd (switchToTab t2 p)) = modelSessions p
       \<and> (\<exists>e'. tabCache (snd (switchToTab t2 p)) t = Some e'
                \<and> (t \<noteq> t1 \<longrightarrow> e' = e) \<and> (tldr e = Some a \<longrightarrow> tldr e' = Some a))"
proof (cases "t = t1")
  case True
  with assms saveCurrentTabQuizChat_same [of p t1 e]
    saveCurrentTabQuizChat_frame [of "Some t1" p]
  show ?thesis by (auto simp add: switchToTab_def Let_def)
next
  case False
  with assms saveCurrentTabQuizChat_other [of "Some t1" t p]
    saveCurrentTabQuizChat_frame [of "Some t1" p]
  show ?thesis by (auto simp add: switchToTab_def Let_def)
qed

text \<open>
  Switching away from a tab and back restores its cached TL;DR from the cache, with no
  extraction and no model session: the generation is not invoked again.
\<close>

lemma switch_away_and_back_restores:
  assumes "currentTabId p = Some t1" and "t2 \<noteq> t1" and "\<not> isSummarizing p"
    and "tabCache p t1 = Some e" and "tldr e = Some a" and "a \<noteq> []"
  shows "fst (switchToTab t2 p)
       \<and> fst (switchToTab t1
               (switchToTab_extracted extraction
                  (snd (switchToTab_accessible t2 accessible (snd (switchToTab t2 p))))))
       \<and> \<not> fst (switchToTab_accessible t1 True
                 (snd (switchToTab t1
                    (switchToTab_extracted extraction
                       (snd (switchToTab_accessible t2 accessible
                               (snd (switchToTab t2 p))))))))
       \<and> childNodes (tldrContent (snd (switchToTab_accessible t1 True
                 (snd (switchToTab t1
                    (switchToTab_extracted extraction
                       (snd (switchToTab_accessible t2 accessible
                               (snd (switchToTab t2 p))))))))))
           = MarkdownNodes a
       \<and> modelSessions (snd (switchToTab_accessible t1 True
                 (snd (switchToTab t1
                    (switchToTab_extracted extraction
                       (snd (switchToTab_accessible t2 accessible
                               (snd (switchToTab t2 p)))))))))
           = modelSessions p"
proof -
  define p1 where "p1 = snd (switchToTab t2 p)"
  define p2 where "p2 = snd (switchToTab_accessible t2 accessible p1)"
  define p3 where "p3 = switchToTab_extracted extraction p2"
  define p4 where "p4 = snd (switchToTab t1 p3)"
  define p5 where "p5 = snd (switchToTab_accessible t1 True p4)"
  from assms switchToTab_leaves [of p t1 t2 t1 e a]
  obtain e1 where first: "fst (switchToTab t2 p)" "currentTabId p1 = Some t2"
    "\<not> isSummarizing p1" "modelSessions p1 = modelSessions p"
    "tabCache p1 t1 = Some e1" "tldr e1 = Some a"
    unfolding p1_def by auto
  from first switchToTab_accessible_frame [of t2 accessible p1]
    switchToTab_extracted_frame [of extraction p2]
  have away: "currentTabId p3 = Some t2" "\<not> isSummarizing p3"
    "modelSessions p3 = modelSessions p" "tabCache p3 t1 = Some e1"
    unfolding p2_def p3_def by simp_all
  from away assms(2) first(6) switchToTab_leaves [of p3 t2 t1 t1 e1 a]
  have again: "fst (switchToTab t1 p3)" "modelSessions p4 = modelSessions p"
    "tabCache p4 t1 = Some e1"
    unfolding p4_def by auto
  from again(3) first(6) assms(6)
  have restored: "\<not> fst (switchToTab_accessible t1 True p4)"
    "childNodes (tldrContent p5) = MarkdownNodes a"
    "modelSessions p5 = modelSessions p4"
    unfolding p5_def
    by (simp_all add: switchToTab_accessible_def restoreFromCache_def renderMarkdownSafe_def
        clearElement_def)
  from first(1) again(1,2) restored show ?thesis
    unfolding p1_def p2_def p3_def p4_def p5_def by simp
qed

text \<open>
  A navigation with a new URL deletes the entry of the tab, and so does closing the tab;
  the entries of all other tabs stay. A tab without entry is shown in the fresh state.
\<close>

lemma onUpdated_invalidates:
  assumes "url \<noteq> []"
  shows "tabCache (snd (onUpdated t (Some url) p)) t = None
       \<and> (t' \<noteq> t \<longrightarrow> tabCache (snd (onUpdated t (Some url) p)) t' = tabCache p t')"
  using assms by (simp add: onUpdated_def Let_def showFreshState_frame)

lemma onRemoved_evicts:
  "tabCache (onRemoved t p) t = None
   \<and> (t' \<noteq> t \<longrightarrow> tabCache (onRemoved t p) t' = tabCache p t')"
  by (simp add: onRemoved_def)

lemma switch_without_entry_is_fresh:
  assumes "tabCache p t = None"
  shows "fst (switchToTab_accessible t True p)
       \<and> childNodes (tldrContent (snd (switchToTab_accessible t True p))) = NoNodes
       \<and> childNodes (keyPointsContent (snd (switchToTab_accessible t True p))) = NoNodes
       \<and> extractedPageData (snd (switchToTab_accessible t True p)) = None"
  using assms
  by (simp add: switchToTab_accessible_def restoreFromCache_def showFreshState_frame)

text \<open>
  C4, at an input where the code departs from it. Tab 2 is activated while the TL;DR of
  tab 1 is being generated. When the summarizer answers, the handler writes the summary
  under \<open>currentTabId\<close>, which is 2 by then: the TL;DR of the page of tab 1 is stored in
  the entry of tab 2, beside the page data of tab 2, and rendered while tab 2 is shown;
  tab 1 has no entry.
\<close>

theorem tldr_cached_under_other_tab:
  "fst switch_started = TldrAwaitSummarizer (pd_text pageOne)
   \<and> currentTabId (snd switch_started) = Some 1
   \<and> fst (switchToTab 2 (snd switch_started))
   \<and> fst (switchToTab_accessible 2 True (snd (switchToTab 2 (snd switch_started))))
   \<and> currentTabId switch_activated = Some 2
   \<and> extractedPageData switch_activated = Some pageTwo
   \<and> tabCache switch_activated 2 = None
   \<and> currentTabId switch_settled = Some 2
   \<and> tabCache switch_settled 2
       = Some \<lparr>pageData = Some pageTwo, summaryType = str ''both'',
               tldr = Some (str ''A''), keyPoints = None,
               quizHtml = None, dialogueHtml = None, chatHtml = None\<rparr>
   \<and> tabCache switch_settled 1 = None
   \<and> childNodes (tldrContent switch_settled) = MarkdownNodes (str ''A'')"
  by code_simp

section \<open>Facts about the translation of items\<close>

lemma translateItems_all_translated:
  assumes "length ts = length items"
    and "\<forall>i < length items. tr_translate tr (idx + i) (snd (items ! i)) = Inr (ts ! i)"
  shows "translateItems tr idx items acc = Inr (acc @ map2 translatedLine items ts)"
  using assms
proof (induction items arbitrary: idx acc ts)
  case Nil
  then show ?case by simp
next
  case (Cons item items)
  obtain tag body where item: "item = (tag, body)" by (cases item)
  from Cons.prems(1) obtain t rest where ts: "ts = t # rest" "length rest = length items"
    by (cases ts) auto
  from Cons.prems(2) [rule_format, of 0] item ts
  have head: "tr_translate tr idx body = Inr t" by simp
  have "\<forall>i < length items. tr_translate tr (idx + 1 + i) (snd (items ! i)) = Inr (rest ! i)"
  proof (intro allI impI)
    fix i assume "i < length items"
    with Cons.prems(2) [rule_format, of "Suc i"] ts show
      "tr_translate tr (idx + 1 + i) (snd (items ! i)) = Inr (rest ! i)" by simp
  qed
  from Cons.IH [OF ts(2) this] item ts head show ?case
    by (simp add: translatedLine_def)
qed










section \<open>Facts about lines, trimming and the parser of the pass\<close>




lemma dropWhile_id_iff: "dropWhile P xs = xs \<longleftrightarrow> xs = [] \<or> \<not> P (hd xs)"
proof (cases xs)
  case Nil
  then show ?thesis by simp
next
  case (Cons a list)
  have "dropWhile P list \<noteq> a # list"
    using length_dropWhile_le [of P list] by (auto dest: arg_cong [where f = length])
  with Cons show ?thesis by simp
qed










section \<open>Claims about the translation of key points\<close>







lemma trim_not_blank:
  assumes "s \<noteq> []" and "\<not> isWhiteSpace (hd s)"
  shows "trim s \<noteq> []"
proof -
  from assms have "dropWhile isWhiteSpace s = s" by (simp add: dropWhile_id_iff)
  moreover from assms have "\<exists>c \<in> set (rev s). \<not> isWhiteSpace c"
    by (auto intro: bexI [of _ "hd s"])
  then have "dropWhile isWhiteSpace (rev s) \<noteq> []"
    by (simp add: dropWhile_eq_Nil_conv)
  ultimately show ?thesis by (simp add: trim_def)
qed

lemma join_translatedLines_not_blank:
  assumes "items \<noteq> []" and "length ts = length items"
  shows "trim (join (map2 translatedLine items ts) [10]) \<noteq> []"
proof -
  from assms obtain item rest t ts' where shape: "items = item # rest" "ts = t # ts'"
    by (cases items; cases ts) auto
  have first: "\<exists>r. translatedLine item t = 45 # r"
    by (simp add: translatedLine_def str_simps)
  define ls where "ls = map2 translatedLine rest ts'"
  have "\<exists>r. join (translatedLine item t # ls) [10] = 45 # r"
    using first by (cases ls) auto
  then have "\<exists>r. join (map2 translatedLine items ts) [10] = 45 # r"
    unfolding shape ls_def by simp
  then obtain r where "join (map2 translatedLine items ts) [10] = 45 # r" ..
  moreover have "\<not> isWhiteSpace 45" by (simp add: isWhiteSpace_def)
  ultimately show ?thesis by (simp add: trim_not_blank)
qed

lemma translateKeyPointsPreservingFormat_answers:
  assumes "parseItems keyPointsText \<noteq> []"
    and "length ts = length (parseItems keyPointsText)"
    and "\<forall>i < length (parseItems keyPointsText).
           tr_translate tr i (snd (parseItems keyPointsText ! i)) = Inr (ts ! i)"
  shows "translateKeyPointsPreservingFormat tr keyPointsText
           = Inr (join (map2 translatedLine (parseItems keyPointsText) ts) [10])"
proof -
  from assms(2,3) have "translateItems tr 0 (parseItems keyPointsText) []
      = Inr ([] @ map2 translatedLine (parseItems keyPointsText) ts)"
    by (intro translateItems_all_translated) simp_all
  with assms(1) show ?thesis
    by (simp add: translateKeyPointsPreservingFormat_def)
qed



section \<open>Claims about the fallback of the translation helpers\<close>

lemma translateItems_throws:
  assumes "i < length items" and "tr_translate tr (idx + i) (snd (items ! i)) = Inl err"
  shows "\<exists>e. translateItems tr idx items acc = Inl e"
  using assms
proof (induction items arbitrary: idx acc i)
  case Nil
  then show ?case by simp
next
  case (Cons item items)
  obtain tag body where item: "item = (tag, body)" by (cases item)
  show ?case
  proof (cases "tr_translate tr idx body")
    case (Inl e)
    with item show ?thesis by simp
  next
    case (Inr translated)
    with Cons.prems item obtain j where j: "i = Suc j" by (cases i) auto
    with Cons.prems have "j < length items"
      "tr_translate tr (idx + 1 + j) (snd (items ! j)) = Inl err"
      by simp_all
    from Cons.IH [OF this] item Inr show ?thesis by simp
  qed
qed

lemma translateKeyPointsPreservingFormat_throws:
  assumes "i < length (parseItems keyPointsText)"
    and "tr_translate tr i (snd (parseItems keyPointsText ! i)) = Inl err"
  shows "\<exists>e. translateKeyPointsPreservingFormat tr keyPointsText = Inl e"
proof -
  from assms have "\<exists>e. translateItems tr 0 (parseItems keyPointsText) [] = Inl e"
    by (intro translateItems_throws [of i]) simp_all
  moreover from assms(1) have "parseItems keyPointsText \<noteq> []" by auto
  ultimately show ?thesis
    by (auto simp add: translateKeyPointsPreservingFormat_def)
qed

lemma translatedLines_blank:
  assumes "length ts = length items" and "\<forall>t \<in> set ts. trim t = []"
  shows "map2 translatedLine items ts
           = map (\<lambda>item. str ''- '' @ fst item @ str '' '' @ snd item) items"
  using assms
  by (induction ts items rule: list_induct2) (simp_all add: translatedLine_def)

lemma translateIfNeeded_obtained:
  "fst (translateIfNeeded pending created text lang) =
     (if text = [] \<or> lang = str ''en'' then Inr text
      else (case obtainTranslator pending created of
              Inl err \<Rightarrow> Inr text
            | Inr tr \<Rightarrow>
                (case tr_translate tr 0 text of
                   Inl err \<Rightarrow> Inr text
                 | Inr translated \<Rightarrow>
                     if trim translated \<noteq> [] then Inr translated else Inr text)))"
  by (simp add: translateIfNeeded_def obtainTranslator_def split: sum.splits option.splits)

lemma translateKeyPointsIfNeeded_obtained:
  "fst (translateKeyPointsIfNeeded pending created text lang) =
     (if text = [] \<or> lang = str ''en'' then Inr text
      else (case obtainTranslator pending created of
              Inl err \<Rightarrow> Inr text
            | Inr tr \<Rightarrow>
                (case translateKeyPointsPreservingFormat tr text of
                   Inl err \<Rightarrow> Inr text
                 | Inr translated \<Rightarrow>
                     if trim translated \<noteq> [] then Inr translated else Inr text)))"
  by (simp add: translateKeyPointsIfNeeded_def obtainTranslator_def
      split: sum.splits option.splits)

lemma example_blank_answer: "trim (str '' '') = []"
  by (simp add: trim_def isWhiteSpace_def str_simps)

lemma example_low_item:
  "parseItems (str ''- [LOW] Point'' @ [10] @ str ''free text'')
     = [(str ''[LOW]'', str ''Point'')]"
  by (simp add: parseItems_def itemOfLine_def trim_def isWhiteSpace_def matchTag_def
      toUpperCase_def upperUnit_def isLineTerminator_def List.map_filter_simps str_simps
      Let_def)

lemma example_no_item: "parseItems (str ''free text'') = []"
  by (simp add: parseItems_def itemOfLine_def trim_def isWhiteSpace_def
      List.map_filter_simps str_simps Let_def)

text \<open>
  C9. \<open>translateIfNeeded\<close> and \<open>translateKeyPointsIfNeeded\<close> never reject: they return the
  text they were given, or a text that is not blank. Both return the text unchanged when
  the target language is \<open>en\<close>, when the text is empty, and when the pending promise or
  the creation of a translator rejects. \<open>translateIfNeeded\<close> returns the text unchanged
  when the call of the translator throws and when its answer is empty or blank, and the
  answer itself otherwise. \<open>translateKeyPointsIfNeeded\<close> returns the text unchanged when a
  call of the translator throws, for the whole block or for an item, and, when no line of
  the text is an item, when the answer for the whole block is empty or blank. When lines
  of the text are items and every call answers, it returns the lines assembled from the
  items, where an item whose answer is empty or blank keeps its own body: with blank
  answers only, the lines \<open>- [TAG] body\<close> of the items, which need not be the text.
\<close>

theorem translation_falls_back_to_input:
  "(\<exists>r. fst (translateIfNeeded pending created text lang) = Inr r
         \<and> (r = text \<or> trim r \<noteq> []))
   \<and> (\<exists>r. fst (translateKeyPointsIfNeeded pending created text lang) = Inr r
         \<and> (r = text \<or> trim r \<noteq> []))
   \<and> (lang = str ''en'' \<or> text = [] \<or> obtainTranslator pending created = Inl err
       \<longrightarrow> fst (translateIfNeeded pending created text lang) = Inr text
         \<and> fst (translateKeyPointsIfNeeded pending created text lang) = Inr text)
   \<and> (obtainTranslator pending created = Inr tr
        \<and> (tr_translate tr 0 text = Inl err
            \<or> (\<exists>t. tr_translate tr 0 text = Inr t \<and> trim t = []))
       \<longrightarrow> fst (translateIfNeeded pending created text lang) = Inr text)
   \<and> (text \<noteq> [] \<and> lang \<noteq> str ''en'' \<and> obtainTranslator pending created = Inr tr
        \<and> tr_translate tr 0 text = Inr answer \<and> trim answer \<noteq> []
       \<longrightarrow> fst (translateIfNeeded pending created text lang) = Inr answer)
   \<and> (obtainTranslator pending created = Inr tr \<and> parseItems text = []
        \<and> (tr_translate tr 0 text = Inl err
            \<or> (\<exists>t. tr_translate tr 0 text = Inr t \<and> trim t = []))
       \<longrightarrow> fst (translateKeyPointsIfNeeded pending created text lang) = Inr text)
   \<and> (obtainTranslator pending created = Inr tr
        \<and> (\<exists>i < length (parseItems text).
              tr_translate tr i (snd (parseItems text ! i)) = Inl err)
       \<longrightarrow> fst (translateKeyPointsIfNeeded pending created text lang) = Inr text)
   \<and> (text \<noteq> [] \<and> lang \<noteq> str ''en'' \<and> obtainTranslator pending created = Inr tr
        \<and> parseItems text \<noteq> [] \<and> length ts = length (parseItems text)
        \<and> (\<forall>i < length (parseItems text).
              tr_translate tr i (snd (parseItems text ! i)) = Inr (ts ! i))
       \<longrightarrow> fst (translateKeyPointsIfNeeded pending created text lang)
            = Inr (join (map2 translatedLine (parseItems text) ts) [10]))
   \<and> (text \<noteq> [] \<and> lang \<noteq> str ''en'' \<and> obtainTranslator pending created = Inr tr
        \<and> parseItems text \<noteq> [] \<and> length ts = length (parseItems text)
        \<and> (\<forall>i < length (parseItems text).
              tr_translate tr i (snd (parseItems text ! i)) = Inr (ts ! i))
        \<and> (\<forall>t \<in> set ts. trim t = [])
       \<longrightarrow> fst (translateKeyPointsIfNeeded pending created text lang)
            = Inr (join (map (\<lambda>item. str ''- '' @ fst item @ str '' '' @ snd item)
                           (parseItems text)) [10]))"
proof -
  have never: "\<exists>r. fst (translateIfNeeded pending created text lang) = Inr r
      \<and> (r = text \<or> trim r \<noteq> [])"
    by (simp add: translateIfNeeded_obtained split: sum.splits)
  have neverKp: "\<exists>r. fst (translateKeyPointsIfNeeded pending created text lang) = Inr r
      \<and> (r = text \<or> trim r \<noteq> [])"
    by (simp add: translateKeyPointsIfNeeded_obtained split: sum.splits)
  have early: "lang = str ''en'' \<or> text = [] \<or> obtainTranslator pending created = Inl err
      \<longrightarrow> fst (translateIfNeeded pending created text lang) = Inr text
        \<and> fst (translateKeyPointsIfNeeded pending created text lang) = Inr text"
    by (auto simp add: translateIfNeeded_obtained translateKeyPointsIfNeeded_obtained)
  have failed: "obtainTranslator pending created = Inr tr
        \<and> (tr_translate tr 0 text = Inl err
            \<or> (\<exists>t. tr_translate tr 0 text = Inr t \<and> trim t = []))
       \<longrightarrow> fst (translateIfNeeded pending created text lang) = Inr text"
    by (auto simp add: translateIfNeeded_obtained)
  have answered: "text \<noteq> [] \<and> lang \<noteq> str ''en'' \<and> obtainTranslator pending created = Inr tr
        \<and> tr_translate tr 0 text = Inr answer \<and> trim answer \<noteq> []
       \<longrightarrow> fst (translateIfNeeded pending created text lang) = Inr answer"
    by (simp add: translateIfNeeded_obtained)
  have block: "obtainTranslator pending created = Inr tr \<and> parseItems text = []
        \<and> (tr_translate tr 0 text = Inl err
            \<or> (\<exists>t. tr_translate tr 0 text = Inr t \<and> trim t = []))
       \<longrightarrow> fst (translateKeyPointsIfNeeded pending created text lang) = Inr text"
    by (auto simp add: translateKeyPointsIfNeeded_obtained
        translateKeyPointsPreservingFormat_def)
  have thrown: "obtainTranslator pending created = Inr tr
        \<and> (\<exists>i < length (parseItems text).
              tr_translate tr i (snd (parseItems text ! i)) = Inl err)
       \<longrightarrow> fst (translateKeyPointsIfNeeded pending created text lang) = Inr text"
  proof
    assume given: "obtainTranslator pending created = Inr tr
        \<and> (\<exists>i < length (parseItems text).
              tr_translate tr i (snd (parseItems text ! i)) = Inl err)"
    then obtain e where "translateKeyPointsPreservingFormat tr text = Inl e"
      using translateKeyPointsPreservingFormat_throws by blast
    with given show "fst (translateKeyPointsIfNeeded pending created text lang) = Inr text"
      by (simp add: translateKeyPointsIfNeeded_obtained)
  qed
  have lines: "text \<noteq> [] \<and> lang \<noteq> str ''en'' \<and> obtainTranslator pending created = Inr tr
        \<and> parseItems text \<noteq> [] \<and> length ts = length (parseItems text)
        \<and> (\<forall>i < length (parseItems text).
              tr_translate tr i (snd (parseItems text ! i)) = Inr (ts ! i))
       \<longrightarrow> fst (translateKeyPointsIfNeeded pending created text lang)
            = Inr (join (map2 translatedLine (parseItems text) ts) [10])"
  proof
    assume given: "text \<noteq> [] \<and> lang \<noteq> str ''en'' \<and> obtainTranslator pending created = Inr tr
        \<and> parseItems text \<noteq> [] \<and> length ts = length (parseItems text)
        \<and> (\<forall>i < length (parseItems text).
              tr_translate tr i (snd (parseItems text ! i)) = Inr (ts ! i))"
    then have "translateKeyPointsPreservingFormat tr text
        = Inr (join (map2 translatedLine (parseItems text) ts) [10])"
      by (intro translateKeyPointsPreservingFormat_answers) simp_all
    moreover from given
    have "trim (join (map2 translatedLine (parseItems text) ts) [10]) \<noteq> []"
      by (intro join_translatedLines_not_blank) simp_all
    ultimately show "fst (translateKeyPointsIfNeeded pending created text lang)
        = Inr (join (map2 translatedLine (parseItems text) ts) [10])"
      using given by (simp add: translateKeyPointsIfNeeded_obtained)
  qed
  have kept: "text \<noteq> [] \<and> lang \<noteq> str ''en'' \<and> obtainTranslator pending created = Inr tr
        \<and> parseItems text \<noteq> [] \<and> length ts = length (parseItems text)
        \<and> (\<forall>i < length (parseItems text).
              tr_translate tr i (snd (parseItems text ! i)) = Inr (ts ! i))
        \<and> (\<forall>t \<in> set ts. trim t = [])
       \<longrightarrow> fst (translateKeyPointsIfNeeded pending created text lang)
            = Inr (join (map (\<lambda>item. str ''- '' @ fst item @ str '' '' @ snd item)
                           (parseItems text)) [10])"
  proof
    assume given: "text \<noteq> [] \<and> lang \<noteq> str ''en'' \<and> obtainTranslator pending created = Inr tr
        \<and> parseItems text \<noteq> [] \<and> length ts = length (parseItems text)
        \<and> (\<forall>i < length (parseItems text).
              tr_translate tr i (snd (parseItems text ! i)) = Inr (ts ! i))
        \<and> (\<forall>t \<in> set ts. trim t = [])"
    with lines have "fst (translateKeyPointsIfNeeded pending created text lang)
        = Inr (join (map2 translatedLine (parseItems text) ts) [10])"
      by blast
    moreover from given have "map2 translatedLine (parseItems text) ts
        = map (\<lambda>item. str ''- '' @ fst item @ str '' '' @ snd item) (parseItems text)"
      by (intro translatedLines_blank) simp_all
    ultimately show "fst (translateKeyPointsIfNeeded pending created text lang)
        = Inr (join (map (\<lambda>item. str ''- '' @ fst item @ str '' '' @ snd item)
                       (parseItems text)) [10])"
      by simp
  qed
  from never neverKp early failed answered block thrown lines kept
  show ?thesis by (intro conjI)
qed

theorem translation_falls_back_to_input_witness:
  "fst (translateIfNeeded None (Inr failingTranslator) (str ''Summary'') (str ''ja''))
     = Inr (str ''Summary'')
   \<and> fst (translateIfNeeded None (Inr blankTranslator) (str ''Summary'') (str ''ja''))
     = Inr (str ''Summary'')
   \<and> fst (translateIfNeeded None (Inr markingTranslator) (str ''Summary'') (str ''ja''))
     = Inr (str ''T-Summary'')
   \<and> fst (translateIfNeeded None (Inr markingTranslator) (str ''Summary'') (str ''en''))
     = Inr (str ''Summary'')
   \<and> fst (translateKeyPointsIfNeeded None
            (Inl \<lparr>errName = str ''NotAllowedError'', errMessage = []\<rparr>)
            (str ''free text'') (str ''es''))
     = Inr (str ''free text'')
   \<and> fst (translateKeyPointsIfNeeded None (Inr blankTranslator) (str ''free text'')
            (str ''ja''))
     = Inr (str ''free text'')
   \<and> fst (translateKeyPointsIfNeeded None (Inr failingTranslator)
            (str ''- [LOW] Point'' @ [10] @ str ''free text'') (str ''ja''))
     = Inr (str ''- [LOW] Point'' @ [10] @ str ''free text'')
   \<and> fst (translateKeyPointsIfNeeded None (Inr markingTranslator)
            (str ''- [LOW] Point'' @ [10] @ str ''free text'') (str ''ja''))
     = Inr (str ''- [LOW] T-Point'')
   \<and> fst (translateKeyPointsIfNeeded None (Inr blankTranslator)
            (str ''- [LOW] Point'' @ [10] @ str ''free text'') (str ''ja''))
     = Inr (str ''- [LOW] Point'')"
proof -
  let ?denied = "\<lparr>errName = str ''NotAllowedError'', errMessage = []\<rparr>"
  let ?text = "str ''- [LOW] Point'' @ [10] @ str ''free text''"
  have obtained: "obtainTranslator None (Inr failingTranslator) = Inr failingTranslator"
    "obtainTranslator None (Inr blankTranslator) = Inr blankTranslator"
    "obtainTranslator None (Inr markingTranslator) = Inr markingTranslator"
    "obtainTranslator None (Inl ?denied) = Inl ?denied"
    by (simp_all add: obtainTranslator_def awaitTranslator_def)
  have calls: "tr_translate failingTranslator 0 (str ''Summary'') = Inl ?denied"
    "tr_translate blankTranslator 0 (str ''Summary'') = Inr (str '' '')"
    "tr_translate markingTranslator 0 (str ''Summary'') = Inr (str ''T-Summary'')"
    "tr_translate blankTranslator 0 (str ''free text'') = Inr (str '' '')"
    "tr_translate failingTranslator 0 (str ''Point'') = Inl ?denied"
    "tr_translate markingTranslator 0 (str ''Point'') = Inr (str ''T-Point'')"
    "tr_translate blankTranslator 0 (str ''Point'') = Inr (str '' '')"
    by (simp_all add: failingTranslator_def blankTranslator_def markingTranslator_def
        str_simps)
  have notBlank: "trim (str ''T-Summary'') \<noteq> []"
    by (simp add: trim_def isWhiteSpace_def str_simps)
  have notEmpty: "str ''Summary'' \<noteq> []" "?text \<noteq> []" "str ''ja'' \<noteq> str ''en''"
    by (simp_all add: str_simps)
  have marked: "join (map2 translatedLine [(str ''[LOW]'', str ''Point'')] [str ''T-Point''])
      [10] = str ''- [LOW] T-Point''"
    by (simp add: translatedLine_def trim_def isWhiteSpace_def str_simps)
  have kept: "join (map (\<lambda>item. str ''- '' @ fst item @ str '' '' @ snd item)
      [(str ''[LOW]'', str ''Point'')]) [10] = str ''- [LOW] Point''"
    by (simp add: str_simps)
  have blankLine: "translatedLine (str ''[LOW]'', str ''Point'') (str '' '')
      = str ''- [LOW] Point''"
    by (simp add: translatedLine_def trim_def isWhiteSpace_def str_simps)
  have c1: "fst (translateIfNeeded None (Inr failingTranslator) (str ''Summary'') (str ''ja''))
      = Inr (str ''Summary'')"
    using translation_falls_back_to_input
      [of None "Inr failingTranslator" "str ''Summary''" "str ''ja''" ?denied
        failingTranslator "[]" "[]"]
      obtained calls by simp
  have c2: "fst (translateIfNeeded None (Inr blankTranslator) (str ''Summary'') (str ''ja''))
      = Inr (str ''Summary'')"
    using translation_falls_back_to_input
      [of None "Inr blankTranslator" "str ''Summary''" "str ''ja''" ?denied
        blankTranslator "[]" "[]"]
      obtained calls example_blank_answer by simp
  have c3: "fst (translateIfNeeded None (Inr markingTranslator) (str ''Summary'') (str ''ja''))
      = Inr (str ''T-Summary'')"
    using translation_falls_back_to_input
      [of None "Inr markingTranslator" "str ''Summary''" "str ''ja''" ?denied
        markingTranslator "str ''T-Summary''" "[]"]
      obtained calls notBlank notEmpty by simp
  have c4: "fst (translateIfNeeded None (Inr markingTranslator) (str ''Summary'') (str ''en''))
      = Inr (str ''Summary'')"
    using translation_falls_back_to_input
      [of None "Inr markingTranslator" "str ''Summary''" "str ''en''" ?denied
        markingTranslator "[]" "[]"]
    by simp
  have c5: "fst (translateKeyPointsIfNeeded None (Inl ?denied) (str ''free text'') (str ''es''))
      = Inr (str ''free text'')"
    using translation_falls_back_to_input
      [of None "Inl ?denied" "str ''free text''" "str ''es''" ?denied
        failingTranslator "[]" "[]"]
      obtained by simp
  have c6: "fst (translateKeyPointsIfNeeded None (Inr blankTranslator) (str ''free text'')
        (str ''ja'')) = Inr (str ''free text'')"
    using translation_falls_back_to_input
      [of None "Inr blankTranslator" "str ''free text''" "str ''ja''" ?denied
        blankTranslator "[]" "[]"]
      obtained calls example_blank_answer example_no_item by simp
  have c7: "fst (translateKeyPointsIfNeeded None (Inr failingTranslator) ?text (str ''ja''))
      = Inr ?text"
    using translation_falls_back_to_input
      [of None "Inr failingTranslator" ?text "str ''ja''" ?denied
        failingTranslator "[]" "[]"]
      obtained calls example_low_item by simp
  have c8: "fst (translateKeyPointsIfNeeded None (Inr markingTranslator) ?text (str ''ja''))
      = Inr (str ''- [LOW] T-Point'')"
    using translation_falls_back_to_input
      [of None "Inr markingTranslator" ?text "str ''ja''" ?denied
        markingTranslator "[]" "[str ''T-Point'']"]
      obtained calls example_low_item notEmpty marked by simp
  have c9: "fst (translateKeyPointsIfNeeded None (Inr blankTranslator) ?text (str ''ja''))
      = Inr (str ''- [LOW] Point'')"
    using translation_falls_back_to_input
      [of None "Inr blankTranslator" ?text "str ''ja''" ?denied
        blankTranslator "[]" "[str '' '']"]
      obtained calls example_low_item notEmpty kept blankLine example_blank_answer by simp
  from c1 c2 c3 c4 c5 c6 c7 c8 c9 show ?thesis by (intro conjI)
qed

text \<open>
  The claim as it is worded, that the text is returned unchanged whenever the translation
  is empty or blank, fails in \<open>translateKeyPointsIfNeeded\<close> when a line of the text is an
  item. With a translator that answers every call with a blank, the text \<open>- [LOW] Point\<close>,
  \<open>free text\<close> comes back as \<open>- [LOW] Point\<close>: the item keeps its body, and the line that is
  not an item is lost.
\<close>

theorem translation_falls_back_to_input_counterexample:
  "tr_translate blankTranslator 0 (str ''Point'') = Inr (str '' '')
   \<and> trim (str '' '') = []
   \<and> translateKeyPointsIfNeeded None (Inr blankTranslator)
        (str ''- [LOW] Point'' @ [10] @ str ''free text'') (str ''ja'')
     = (Inr (str ''- [LOW] Point''), 1)
   \<and> str ''- [LOW] Point'' \<noteq> str ''- [LOW] Point'' @ [10] @ str ''free text''"
proof -
  have answer: "tr_translate blankTranslator 0 (str ''Point'') = Inr (str '' '')"
    by (simp add: blankTranslator_def)
  have pass: "translateKeyPointsPreservingFormat blankTranslator
      (str ''- [LOW] Point'' @ [10] @ str ''free text'') = Inr (str ''- [LOW] Point'')"
    unfolding translateKeyPointsPreservingFormat_def example_low_item
    by (simp add: blankTranslator_def trim_def isWhiteSpace_def str_simps)
  have "trim (str ''- [LOW] Point'') \<noteq> []"
    by (simp add: trim_def isWhiteSpace_def str_simps)
  with pass have result: "translateKeyPointsIfNeeded None (Inr blankTranslator)
      (str ''- [LOW] Point'' @ [10] @ str ''free text'') (str ''ja'')
      = (Inr (str ''- [LOW] Point''), 1)"
    by (simp add: translateKeyPointsIfNeeded_def awaitTranslator_def destroyCalls_def
        blankTranslator_def str_simps)
  have differ: "str ''- [LOW] Point'' \<noteq> str ''- [LOW] Point'' @ [10] @ str ''free text''"
    by (simp add: str_simps)
  from answer example_blank_answer result differ show ?thesis by (intro conjI)
qed

end
